theory Spec2Isabelle
  imports Complex_Main "HOL-Library.Sublist" "HOL-Library.Log_Nat"
begin

section \<open>The request decorators of the REST layer (rest/decorators.py)\<close>

text \<open>
  Every decorator of the module takes a handler method \<open>f\<close> and returns a wrapper that is
  called as \<open>wrapper(self, *args, **kwargs)\<close>. The wrappers read and write attributes of
  \<open>self\<close> (the session, the token, the request and its response headers), the process-wide
  cache and the process-wide state, and they either raise or call \<open>f\<close>.

  The model passes the mutable part explicitly (record \<open>world\<close>), keeps the request
  descriptor apart as an argument that is only read, returns an exception as the left
  summand of the result, and writes down, in program order, what each call did (the
  \<open>trace\<close>): which wrapper was entered, whether the raw handler method was called, and
  which calls were made to the cache store and to the endpoint refresh. Positional and
  keyword arguments are handed through unchanged by every wrapper and so are part of \<open>f\<close>.
  A Twisted deferred is modelled by the result it resolves to: a callback added with
  \<open>addCallback\<close> runs on that result when it is a value and is skipped when it is a
  failure, and an exception raised inside a callback becomes the failure of the deferred.
\<close>

subsection \<open>Data\<close>

datatype error =
    NotAuthenticated
  | InternalServerError string
  | OtherError string

text \<open>Values a handler returns: \<open>isinstance(data, (dict, list))\<close> holds of the last two.\<close>

datatype pyval =
    PyNone
  | PyStr string
  | PyBytes string
  | PyList "pyval list"
  | PyDict "(string \<times> pyval) list"

fun is_dict_or_list :: "pyval \<Rightarrow> bool" where
  "is_dict_or_list (PyList xs) = True"
| "is_dict_or_list (PyDict kvs) = True"
| "is_dict_or_list v = False"

text \<open>
  A datetime is a number of microseconds on one time line, and \<open>timedelta_seconds n\<close> is
  \<open>timedelta(seconds=n)\<close>; datetimes are compared and added exactly.
\<close>

type_synonym datetime = int

definition timedelta_seconds :: "int \<Rightarrow> int" where
  "timedelta_seconds n = n * 1000000"

record session =
  session_tid :: int
  user_role :: string
  ratelimit_time :: datetime
  ratelimit_count :: int

record request =
  tid :: int
  path :: string
  language :: string
  uri :: string

subsection \<open>The cache store\<close>

type_synonym cache_key = "int \<times> string \<times> string"
type_synonym cache_entry = "string \<times> pyval"
type_synonym cache_store = "cache_key \<Rightarrow> cache_entry option"

text \<open>
  Modelled from the spec: the class \<open>Cache\<close> of \<open>globaleaks.rest.cache\<close> is not among the
  sources. The spec gives its interface as
  \<open>get(tenant, path, language) -> Option<(content_type, body)>\<close>,
  \<open>set(tenant, path, language, content_type, body) -> stored_entry\<close> and
  \<open>invalidate(tenant)\<close>, which drops every entry of the tenant (all paths, all
  languages) and leaves the entries of other tenants untouched.
\<close>

definition Cache_get :: "cache_store \<Rightarrow> int \<Rightarrow> string \<Rightarrow> string \<Rightarrow> cache_entry option" where
  "Cache_get c t p l = c (t, p, l)"

definition Cache_set ::
  "cache_store \<Rightarrow> int \<Rightarrow> string \<Rightarrow> string \<Rightarrow> string \<Rightarrow> pyval \<Rightarrow> cache_entry \<times> cache_store" where
  "Cache_set c t p l content_type data = ((content_type, data), c((t, p, l) \<mapsto> (content_type, data)))"

definition Cache_invalidate :: "cache_store \<Rightarrow> int \<Rightarrow> cache_store" where
  "Cache_invalidate c t = (\<lambda>k. if fst k = t then None else c k)"

subsection \<open>The state the wrappers work on\<close>

text \<open>
  \<open>session\<close> and \<open>token\<close> are the attributes of \<open>self\<close> of these names. A session is
  \<open>None\<close> or a session object, which is true as a condition; \<open>session_tid\<close> is its \<open>tid\<close>.
  A token is \<open>None\<close> or a string, which is true as a condition when it is not empty.
  \<open>self_invalidate_cache\<close> is \<open>self.invalidate_cache\<close>, read when a request is served;
  \<open>content_type\<close> is the first raw value of the response header \<open>Content-Type\<close> of
  \<open>self.request\<close>, if the header is set; \<open>cache\<close> is the content of \<open>Cache\<close>;
  \<open>clock\<close> is what \<open>datetime_now()\<close> returns.
\<close>

record world =
  session :: "session option"
  token :: "string option"
  self_invalidate_cache :: bool
  content_type :: "string option"
  cache :: cache_store
  clock :: datetime

datatype layer =
    RateLimit
  | RequireToken
  | Authentication
  | CacheGet
  | CacheInvalidate
  | RefreshEndpoints

datatype event =
    Enter layer
  | Handler_called
  | Stored cache_key cache_entry
  | Invalidated int
  | Refreshed

record outcome =
  trace :: "event list"
  result :: "error + pyval"
  final :: world

text \<open>A raw handler method, and a method as the wrappers see and return it.\<close>

type_synonym handler_method = "request \<Rightarrow> world \<Rightarrow> (error + pyval) \<times> world"
type_synonym wrapped = "request \<Rightarrow> world \<Rightarrow> outcome"

definition call :: "handler_method \<Rightarrow> wrapped" where
  "call m req w = (case m req w of (r, w') \<Rightarrow> \<lparr>trace = [Handler_called], result = r, final = w'\<rparr>)"

definition raise :: "error \<Rightarrow> world \<Rightarrow> outcome" where
  "raise e w = \<lparr>trace = [], result = Inl e, final = w\<rparr>"

definition after :: "event list \<Rightarrow> outcome \<Rightarrow> outcome" where
  "after evs out = out\<lparr>trace := evs @ trace out\<rparr>"

subsection \<open>Floating point\<close>

text \<open>
  The rate limiter computes with Python floats: \<open>.timestamp()\<close> returns a float, the
  difference of two timestamps is a float subtraction, and \<open>ratelimit_count / period\<close>
  divides an \<open>int\<close> by a float (or by the \<open>int\<close> 1, with the same result). A float is
  modelled by the real number it is. \<open>round_double x\<close> is the double nearest to \<open>x\<close>, ties
  going to the even significand (for magnitudes in the range of the normal doubles, which
  is where timestamps, their differences and the rates lie): \<open>binary_exponent x\<close> is the
  \<open>e\<close> with \<open>2^e \<le> x < 2^(e+1)\<close>, and a double with that exponent is a multiple of
  \<open>2^(e-52)\<close>.
\<close>

definition round_half_even :: "real \<Rightarrow> int" where
  "round_half_even x =
     (let n = \<lfloor>x\<rfloor>; r = x - of_int n
      in if r < 1 / 2 then n else if 1 / 2 < r then n + 1 else if even n then n else n + 1)"

definition pow2 :: "int \<Rightarrow> real" where
  "pow2 e = (if 0 \<le> e then 2 ^ nat e else 1 / 2 ^ nat (- e))"

definition binary_exponent :: "real \<Rightarrow> int" where
  "binary_exponent x =
     (if 1 \<le> x then bitlen \<lfloor>x\<rfloor> - 1 else - bitlen (\<lceil>1 / x\<rceil> - 1))"

definition round_double :: "real \<Rightarrow> real" where
  "round_double x =
     (if x = 0 then 0
      else (let u = pow2 (binary_exponent \<bar>x\<bar> - 52)
            in sgn x * of_int (round_half_even (\<bar>x\<bar> / u)) * u))"

text \<open>
  Python's operations: the timestamp of a datetime is the double nearest to its seconds,
  a float subtraction is the exact difference rounded, and \<open>n / p\<close> for an \<open>int n\<close> converts
  \<open>n\<close> to a double and rounds the quotient.
\<close>

definition python_timestamp :: "datetime \<Rightarrow> real" where
  "python_timestamp t = round_double (real_of_int t / 1000000)"

definition python_float_sub :: "real \<Rightarrow> real \<Rightarrow> real" where
  "python_float_sub a b = round_double (a - b)"

definition python_int_div_float :: "int \<Rightarrow> real \<Rightarrow> real" where
  "python_int_div_float n p = round_double (round_double (real_of_int n) / p)"

text \<open>
  What the module takes from outside the sources: \<open>json.dumps(data, cls=JSONEncoder)\<close>,
  and \<open>State.refresh_connection_endpoints()\<close>, which works on the process-wide state and
  may raise like any call. The three float operations of the rate limiter are taken
  from the environment too, so that every statement about the rate limiter holds for the
  rounding of the Python at hand (\<open>datetime_now\<close>, which decides what kind of datetime
  \<open>.timestamp()\<close> is called on, is not among the sources); \<open>python_env\<close> below gives them
  the double arithmetic above.
\<close>

record env =
  dumps :: "pyval \<Rightarrow> string"
  refresh :: "world \<Rightarrow> (error + unit) \<times> world"
  timestamp :: "datetime \<Rightarrow> real"
  float_sub :: "real \<Rightarrow> real \<Rightarrow> real"
  int_div_float :: "int \<Rightarrow> real \<Rightarrow> real"

text \<open>Truth value of \<open>self.token\<close>: \<open>None\<close> and the empty string are false.\<close>

definition truthy :: "string option \<Rightarrow> bool" where
  "truthy t = (case t of None \<Rightarrow> False | Some v \<Rightarrow> v \<noteq> [])"

definition endswith :: "string \<Rightarrow> string \<Rightarrow> bool" where
  "endswith s suf = (length suf \<le> length s \<and> drop (length s - length suf) s = suf)"

subsection \<open>The decorators\<close>

definition decorator_rate_limit :: "env \<Rightarrow> wrapped \<Rightarrow> wrapped" where
  "decorator_rate_limit E f req w =
     after [Enter RateLimit]
       (case session w of
          None \<Rightarrow> f req w
        | Some s \<Rightarrow>
            if user_role s = ''whistleblower'' then
              (let now = clock w;
                   s1 = (if now > ratelimit_time s + timedelta_seconds 30
                         then s\<lparr>ratelimit_time := now, ratelimit_count := 0\<rparr> else s);
                   s2 = s1\<lparr>ratelimit_count := ratelimit_count s1 + 1\<rparr>;
                   period = max (float_sub E (timestamp E now)
                                   (timestamp E (ratelimit_time s2))) 1;
                   w' = w\<lparr>session := Some s2\<rparr>
               in if int_div_float E (ratelimit_count s2) period > 5
                  then raise NotAuthenticated w'
                  else f req w')
            else f req w)"

definition decorator_require_token :: "wrapped \<Rightarrow> wrapped" where
  "decorator_require_token f req w =
     after [Enter RequireToken]
       (if session w = None \<and> \<not> endswith (uri req) ''/api/token'' \<and> \<not> truthy (token w)
        then raise (InternalServerError ''TokenFailure: Missing or invalid token'') w
        else f req w)"

definition decorator_authentication :: "wrapped \<Rightarrow> string set \<Rightarrow> wrapped" where
  "decorator_authentication f roles req w =
     after [Enter Authentication]
       (if ''any'' \<in> roles \<or>
           (case session w of
              None \<Rightarrow> False
            | Some s \<Rightarrow>
                session_tid s = tid req \<and>
                ((''user'' \<in> roles \<and> user_role s \<in> set [''admin'', ''receiver'', ''custodian'']) \<or>
                 user_role s \<in> roles))
        then f req w
        else raise NotAuthenticated w)"

definition decorator_cache_get :: "env \<Rightarrow> wrapped \<Rightarrow> wrapped" where
  "decorator_cache_get E f req w =
     after [Enter CacheGet]
       (case Cache_get (cache w) (tid req) (path req) (language req) of
          None \<Rightarrow>
            (let d = f req w in
             case result d of
               Inl e \<Rightarrow> d
             | Inr data \<Rightarrow>
                 (let w1 = (if is_dict_or_list data
                            then (final d)\<lparr>content_type := Some ''application/json''\<rparr>
                            else final d);
                      data1 = (if is_dict_or_list data then PyStr (dumps E data) else data);
                      c = (case content_type w1 of None \<Rightarrow> ''application/json'' | Some v \<Rightarrow> v);
                      st = Cache_set (cache w1) (tid req) (path req) (language req) c data1
                  in \<lparr>trace = trace d @ [Stored (tid req, path req, language req) (fst st)],
                      result = Inr (snd (fst st)),
                      final = w1\<lparr>cache := snd st\<rparr>\<rparr>))
        | Some c \<Rightarrow>
            \<lparr>trace = [], result = Inr (snd c), final = w\<lparr>content_type := Some (fst c)\<rparr>\<rparr>)"

text \<open>
  The wrapper of \<open>decorator_cache_get\<close> in the two steps the reactor runs. The first is the
  body of the wrapper up to \<open>return d\<close>: the lookup and, on a miss, the call of \<open>f\<close>,
  whose deferred is then pending. The second runs when the deferred fires, in the world
  as it is by then: on a value the callback stores and returns the body, on a failure
  the callback is skipped.
\<close>

datatype arrival = Served outcome | Pending outcome

definition cache_get_arrival :: "wrapped \<Rightarrow> request \<Rightarrow> world \<Rightarrow> arrival" where
  "cache_get_arrival f req w =
     (case Cache_get (cache w) (tid req) (path req) (language req) of
        None \<Rightarrow> Pending (f req w)
      | Some c \<Rightarrow>
          Served \<lparr>trace = [], result = Inr (snd c), final = w\<lparr>content_type := Some (fst c)\<rparr>\<rparr>)"

definition cache_get_callback :: "env \<Rightarrow> request \<Rightarrow> pyval \<Rightarrow> world \<Rightarrow> outcome" where
  "cache_get_callback E req data w =
     (let w1 = (if is_dict_or_list data
                then w\<lparr>content_type := Some ''application/json''\<rparr> else w);
          data1 = (if is_dict_or_list data then PyStr (dumps E data) else data);
          c = (case content_type w1 of None \<Rightarrow> ''application/json'' | Some v \<Rightarrow> v);
          st = Cache_set (cache w1) (tid req) (path req) (language req) c data1
      in \<lparr>trace = [Stored (tid req, path req, language req) (fst st)],
          result = Inr (snd (fst st)),
          final = w1\<lparr>cache := snd st\<rparr>\<rparr>)"

definition cache_get_fire :: "env \<Rightarrow> request \<Rightarrow> outcome \<Rightarrow> world \<Rightarrow> outcome" where
  "cache_get_fire E req d w =
     (case result d of
        Inl e \<Rightarrow> \<lparr>trace = trace d, result = Inl e, final = w\<rparr>
      | Inr data \<Rightarrow> after (trace d) (cache_get_callback E req data w))"

definition decorator_cache_invalidate :: "wrapped \<Rightarrow> wrapped" where
  "decorator_cache_invalidate f req w =
     after [Enter CacheInvalidate]
       (if self_invalidate_cache w
        then after [Invalidated (tid req)]
               (f req (w\<lparr>cache := Cache_invalidate (cache w) (tid req)\<rparr>))
        else f req w)"

definition decorator_refresh_connection_endpoints :: "env \<Rightarrow> wrapped \<Rightarrow> wrapped" where
  "decorator_refresh_connection_endpoints E f req w =
     after [Enter RefreshEndpoints]
       (let d = f req w in
        case result d of
          Inl e \<Rightarrow> d
        | Inr data \<Rightarrow>
            (case refresh E (final d) of
               (Inl e, w') \<Rightarrow> \<lparr>trace = trace d @ [Refreshed], result = Inl e, final = w'\<rparr>
             | (Inr u, w') \<Rightarrow> \<lparr>trace = trace d @ [Refreshed], result = Inr data, final = w'\<rparr>))"

subsection \<open>The composer\<close>

text \<open>
  The attributes of a handler class that \<open>decorate_method\<close> reads. \<open>check_roles\<close> is a
  string or a collection of strings; \<open>methods\<close> gives the raw method of a name, and
  \<open>None\<close> where \<open>getattr\<close> would raise \<open>AttributeError\<close>.
\<close>

datatype check_roles_attr = Role string | Roles "string set"

record handler =
  check_roles :: check_roles_attr
  cache_resource :: bool
  invalidate_cache :: bool
  refresh_connection_endpoints :: bool
  require_token :: bool
  methods :: "string \<Rightarrow> handler_method option"

definition roles_of :: "handler \<Rightarrow> string set" where
  "roles_of h = (case check_roles h of Role r \<Rightarrow> {r} | Roles rs \<Rightarrow> rs)"

text \<open>
  \<open>decorate_method\<close> returns the function that \<open>setattr(h, method, f)\<close> stores;
  \<open>enable_api_cache\<close> is \<open>State.settings.enable_api_cache\<close>.
\<close>

definition decorate_method :: "env \<Rightarrow> bool \<Rightarrow> handler \<Rightarrow> string \<Rightarrow> wrapped option" where
  "decorate_method E enable_api_cache h method =
     (let value = roles_of h in
      case methods h method of
        None \<Rightarrow> None
      | Some m \<Rightarrow>
          (let f0 = call m;
               f1 = (if enable_api_cache then
                       (if method = ''get'' then
                          (if cache_resource h then decorator_cache_get E f0 else f0)
                        else
                          (let g = (if invalidate_cache h
                                    then decorator_cache_invalidate f0 else f0)
                           in if refresh_connection_endpoints h
                              then decorator_refresh_connection_endpoints E g else g))
                     else f0);
               f2 = decorator_authentication f1 value;
               f3 = (if method \<notin> set [''get'', ''options''] \<or> require_token h
                     then decorator_rate_limit E (decorator_require_token f2) else f2)
           in Some f3))"

subsection \<open>Vocabulary of the statements\<close>

text \<open>The wrapper of a layer, and the events that mark a wrapper or the raw method being entered.\<close>

fun apply_layer :: "env \<Rightarrow> string set \<Rightarrow> layer \<Rightarrow> wrapped \<Rightarrow> wrapped" where
  "apply_layer E roles RateLimit f = decorator_rate_limit E f"
| "apply_layer E roles RequireToken f = decorator_require_token f"
| "apply_layer E roles Authentication f = decorator_authentication f roles"
| "apply_layer E roles CacheGet f = decorator_cache_get E f"
| "apply_layer E roles CacheInvalidate f = decorator_cache_invalidate f"
| "apply_layer E roles RefreshEndpoints f = decorator_refresh_connection_endpoints E f"

fun is_visit :: "event \<Rightarrow> bool" where
  "is_visit (Enter l) = True"
| "is_visit Handler_called = True"
| "is_visit e = False"

definition visits :: "outcome \<Rightarrow> event list" where
  "visits d = filter is_visit (trace d)"

definition admitted :: "outcome \<Rightarrow> bool" where
  "admitted d = (Handler_called \<in> set (trace d))"

text \<open>The enabled layers of a handler method, outermost first.\<close>

definition layer_order :: "bool \<Rightarrow> handler \<Rightarrow> string \<Rightarrow> layer list" where
  "layer_order enable_api_cache h method =
     (if method \<notin> set [''get'', ''options''] \<or> require_token h
      then [RateLimit, RequireToken] else []) @
     [Authentication] @
     (if enable_api_cache then
        (if method = ''get'' then (if cache_resource h then [CacheGet] else [])
         else (if refresh_connection_endpoints h then [RefreshEndpoints] else []) @
              (if invalidate_cache h then [CacheInvalidate] else []))
      else [])"

text \<open>The condition of the authorization layer, in the words of its contract.\<close>

definition permitted :: "string set \<Rightarrow> request \<Rightarrow> world \<Rightarrow> bool" where
  "permitted roles req w =
     (''any'' \<in> roles \<or>
      (\<exists>s. session w = Some s \<and> session_tid s = tid req \<and>
           ((''user'' \<in> roles \<and>
             (user_role s = ''admin'' \<or> user_role s = ''receiver'' \<or> user_role s = ''custodian'')) \<or>
            user_role s \<in> roles)))"

text \<open>
  A run of requests on one session: request \<open>i\<close> is served when the clock shows the
  \<open>i\<close>-th time of the list, on the world the request before it left.
\<close>

fun submit :: "wrapped \<Rightarrow> request \<Rightarrow> datetime list \<Rightarrow> world \<Rightarrow> outcome list" where
  "submit f req [] w = []"
| "submit f req (t # ts) w =
     (let d = f req (w\<lparr>clock := t\<rparr>) in d # submit f req ts (final d))"

subsection \<open>Concrete handlers, requests and worlds\<close>

definition python_env :: env where
  "python_env =
     \<lparr>dumps = (\<lambda>v. ''[]''), refresh = (\<lambda>w. (Inr (), w)),
      timestamp = python_timestamp, float_sub = python_float_sub,
      int_div_float = python_int_div_float\<rparr>"

definition demo_env :: env where
  "demo_env = python_env"

definition failing_refresh_env :: env where
  "failing_refresh_env = python_env\<lparr>refresh := (\<lambda>w. (Inl (OtherError ''refresh failed''), w))\<rparr>"

definition list_method :: handler_method where
  "list_method req w = (Inr (PyList []), w)"

definition text_method :: handler_method where
  "text_method req w = (Inr (PyBytes ''ok''), w)"

definition failing_method :: handler_method where
  "failing_method req w = (Inl (OtherError ''boom''), w)"

definition demo_handler :: handler where
  "demo_handler =
     \<lparr>check_roles = Role ''admin'', cache_resource = True, invalidate_cache = True,
      refresh_connection_endpoints = True, require_token = False,
      methods = [''get'' \<mapsto> list_method, ''post'' \<mapsto> text_method]\<rparr>"

definition demo_request :: request where
  "demo_request = \<lparr>tid = 1, path = ''/api/public'', language = ''en'', uri = ''/api/public''\<rparr>"

definition bypass_request :: request where
  "bypass_request =
     \<lparr>tid = 1, path = ''/api/submission'', language = ''en'',
      uri = ''/api/submission?x=/api/token''\<rparr>"

definition token_query_request :: request where
  "token_query_request =
     \<lparr>tid = 1, path = ''/api/token'', language = ''en'', uri = ''/api/token?x=1''\<rparr>"

definition token_request :: request where
  "token_request = \<lparr>tid = 1, path = ''/api/token'', language = ''en'', uri = ''/api/token''\<rparr>"

definition admin_session :: session where
  "admin_session = \<lparr>session_tid = 1, user_role = ''admin'', ratelimit_time = 0, ratelimit_count = 0\<rparr>"

definition wb_session :: session where
  "wb_session = \<lparr>session_tid = 1, user_role = ''whistleblower'', ratelimit_time = 0, ratelimit_count = 0\<rparr>"

definition anon_world :: world where
  "anon_world =
     \<lparr>session = None, token = None, self_invalidate_cache = True, content_type = None,
      cache = Map.empty, clock = 0\<rparr>"

definition admin_world :: world where
  "admin_world = anon_world\<lparr>session := Some admin_session\<rparr>"

definition wb_world :: world where
  "wb_world = anon_world\<lparr>session := Some wb_session\<rparr>"

text \<open>
  A session whose window started on 2026-11-04 at 12:00:00 UTC and has counted 7 requests,
  1.6 seconds later.
\<close>

definition boundary_session :: session where
  "boundary_session =
     \<lparr>session_tid = 1, user_role = ''whistleblower'',
      ratelimit_time = 1793793600000000, ratelimit_count = 7\<rparr>"

definition boundary_world :: world where
  "boundary_world = anon_world\<lparr>session := Some boundary_session, clock := 1793793601600000\<rparr>"

definition cached_world :: world where
  "cached_world = anon_world\<lparr>cache := [(1, ''/api/public'', ''en'') \<mapsto> (''text/plain'', PyBytes ''hello'')]\<rparr>"

section \<open>Basic facts\<close>

lemma endswith_suffix: "endswith s suf \<longleftrightarrow> suffix suf s"
  unfolding endswith_def
  by (metis append_eq_conv_conj append_take_drop_id diff_add_inverse2 length_append suffix_def le_add2)

lemma trace_after [simp]: "trace (after evs d) = evs @ trace d"
  and result_after [simp]: "result (after evs d) = result d"
  and final_after [simp]: "final (after evs d) = final d"
  by (simp_all add: after_def)

lemma trace_call [simp]: "trace (call m req w) = [Handler_called]"
  and result_call [simp]: "result (call m req w) = fst (m req w)"
  and final_call [simp]: "final (call m req w) = snd (m req w)"
  by (simp_all add: call_def split: prod.splits)

lemma trace_raise [simp]: "trace (raise e w) = []"
  and result_raise [simp]: "result (raise e w) = Inl e"
  and final_raise [simp]: "final (raise e w) = w"
  by (simp_all add: raise_def)

lemma visits_after [simp]: "visits (after evs d) = filter is_visit evs @ visits d"
  by (simp add: visits_def)

lemma visits_raise [simp]: "visits (raise e w) = []"
  by (simp add: visits_def)

lemma visits_call [simp]: "visits (call m req w) = [Handler_called]"
  by (simp add: visits_def)

lemma admitted_after [simp]: "admitted (after evs d) \<longleftrightarrow> Handler_called \<in> set evs \<or> admitted d"
  by (auto simp: admitted_def)

lemma admitted_raise [simp]: "\<not> admitted (raise e w)"
  by (simp add: admitted_def)

lemma admitted_call [simp]: "admitted (call m req w)"
  by (simp add: admitted_def)

text \<open>
  The double arithmetic is exact on the integers below \<open>2^53\<close>, so dividing a count by 1
  gives the count; \<open>double_eval\<close> are the equations that evaluate it on numerals.
\<close>

lemma round_half_even_of_int: "round_half_even (of_int k) = k"
  by (simp add: round_half_even_def)

lemma round_double_of_int:
  assumes "0 < n" "n < 2 ^ 53"
  shows "round_double (real_of_int n) = real_of_int n"
proof -
  let ?b = "bitlen n"
  have b1: "1 \<le> ?b"
    using assms(1) bitlen_nonneg [of n] bitlen_eq_zero_iff [of n] by linarith
  have "bitlen n \<le> 53"
    using assms by (simp add: bitlen_le_iff_power)
  then have b2: "?b \<le> 53" .
  define k where "k = nat (53 - ?b)"
  have a: "\<bar>real_of_int n\<bar> = real_of_int n"
    using assms(1) by simp
  have e: "binary_exponent (real_of_int n) = ?b - 1"
    using assms(1) by (simp add: binary_exponent_def)
  have u: "pow2 (?b - 1 - 52) = 1 / 2 ^ k"
    using b2 by (auto simp: pow2_def k_def)
  have q: "real_of_int n / (1 / 2 ^ k) = real_of_int (n * 2 ^ k)"
    by simp
  have n0: "real_of_int n \<noteq> 0" "sgn (real_of_int n) = 1"
    using assms(1) by simp_all
  have "round_double (real_of_int n) =
          sgn (real_of_int n) *
          of_int (round_half_even (real_of_int n / (1 / 2 ^ k))) * (1 / 2 ^ k)"
    unfolding round_double_def Let_def a e u using n0(1) by simp
  also have "\<dots> = real_of_int (n * 2 ^ k) * (1 / 2 ^ k)"
    unfolding q round_half_even_of_int n0(2) by simp
  also have "\<dots> = real_of_int n"
    by simp
  finally show ?thesis .
qed

lemma python_int_div_float_one:
  assumes "0 < n" "n < 2 ^ 53"
  shows "python_int_div_float n 1 = real_of_int n"
  using assms by (simp add: python_int_div_float_def round_double_of_int)

lemmas double_eval =
  python_timestamp_def python_float_sub_def python_int_div_float_def round_double_def
  binary_exponent_def pow2_def round_half_even_def compute_bitlen Let_def

section \<open>The token gate\<close>

text \<open>
  The token gate refuses a request, with the \<open>InternalServerError\<close> "TokenFailure: Missing
  or invalid token" and without calling the wrapped function, exactly when there is no
  session, the token is \<open>None\<close> or empty, and the raw URI of the request does not end with
  \<open>/api/token\<close>; otherwise it calls the wrapped function.
\<close>

lemma require_token_on_raw_uri:
  "decorator_require_token f req w =
     (if session w = None \<and> \<not> suffix ''/api/token'' (uri req) \<and> \<not> truthy (token w)
      then \<lparr>trace = [Enter RequireToken],
            result = Inl (InternalServerError ''TokenFailure: Missing or invalid token''),
            final = w\<rparr>
      else after [Enter RequireToken] (f req w))"
  by (simp add: decorator_require_token_def after_def raise_def endswith_suffix)

text \<open>
  Claim C7 has the gate let a request without session and token through only when it
  targets the token endpoint, and has every request that targets the token endpoint let
  through. The code tests the raw URI, query string included: a request for the path
  \<open>/api/submission\<close> with the query \<open>x=/api/token\<close>, with no session and no token, reaches
  the handler, and a request for the path \<open>/api/token\<close> with the query \<open>x=1\<close> is refused.
\<close>

theorem token_gate_tests_raw_uri:
  "session anon_world = None \<and> token anon_world = None \<and>
   path bypass_request = ''/api/submission'' \<and>
   uri bypass_request = ''/api/submission?x=/api/token'' \<and>
   decorator_require_token (call text_method) bypass_request anon_world =
     \<lparr>trace = [Enter RequireToken, Handler_called], result = Inr (PyBytes ''ok''),
      final = anon_world\<rparr> \<and>
   path token_query_request = ''/api/token'' \<and>
   uri token_query_request = ''/api/token?x=1'' \<and>
   decorator_require_token (call text_method) token_query_request anon_world =
     \<lparr>trace = [Enter RequireToken],
      result = Inl (InternalServerError ''TokenFailure: Missing or invalid token''),
      final = anon_world\<rparr>"
  by (simp add: decorator_require_token_def endswith_def truthy_def anon_world_def
        bypass_request_def token_query_request_def text_method_def after_def raise_def call_def)

section \<open>The authorization layer\<close>

text \<open>
  Claim C4. For every request and every set of allowed roles, the authorization layer
  calls the wrapped function if and only if the set contains \<open>any\<close>, or there is a session
  whose tenant is the tenant of the request and whose role either is one of \<open>admin\<close>,
  \<open>receiver\<close>, \<open>custodian\<close> while the set contains \<open>user\<close>, or is itself in the set
  (the condition \<open>permitted\<close>). In every other case it raises \<open>NotAuthenticated\<close> without
  calling the wrapped function and without changing anything; a request with no session
  is such a case whenever the set does not contain \<open>any\<close>.
\<close>

theorem authentication_iff_permitted:
  "(permitted roles req w \<longrightarrow>
      decorator_authentication f roles req w = after [Enter Authentication] (f req w)) \<and>
   (\<not> permitted roles req w \<longrightarrow>
      decorator_authentication f roles req w =
        \<lparr>trace = [Enter Authentication], result = Inl NotAuthenticated, final = w\<rparr>) \<and>
   (admitted (decorator_authentication (call m) roles req w) \<longleftrightarrow> permitted roles req w) \<and>
   (session w = None \<and> ''any'' \<notin> roles \<longrightarrow> \<not> permitted roles req w)"
  by (auto simp: decorator_authentication_def permitted_def admitted_def after_def raise_def
           split: option.splits)

theorem authentication_iff_permitted_witness:
  "permitted {''user''} demo_request admin_world \<and>
   decorator_authentication (call text_method) {''user''} demo_request admin_world =
     after [Enter Authentication] (call text_method demo_request admin_world) \<and>
   admitted (decorator_authentication (call text_method) {''user''} demo_request admin_world) \<and>
   \<not> permitted {''user''} demo_request wb_world \<and>
   decorator_authentication (call text_method) {''user''} demo_request wb_world =
     \<lparr>trace = [Enter Authentication], result = Inl NotAuthenticated, final = wb_world\<rparr> \<and>
   session anon_world = None \<and> ''any'' \<notin> {''admin''} \<and>
   \<not> permitted {''admin''} demo_request anon_world \<and>
   \<not> admitted (decorator_authentication (call text_method) {''admin''} demo_request anon_world)"
  using authentication_iff_permitted [of "{''user''}" demo_request admin_world "call text_method" text_method]
        authentication_iff_permitted [of "{''user''}" demo_request wb_world "call text_method" text_method]
        authentication_iff_permitted [of "{''admin''}" demo_request anon_world "call text_method" text_method]
  by (simp add: permitted_def admin_world_def wb_world_def anon_world_def demo_request_def
                admin_session_def wb_session_def admitted_def)

section \<open>The rate limiter\<close>

text \<open>
  Claim C5, as amended. For a request on a session of the role \<open>whistleblower\<close> the rate
  limiter resets the window of the session to start now with count 0 when more than 30
  seconds have passed since the start of the window, then adds one to the count, and
  computes the rate in floating point: the count divided by the difference of the two
  timestamps, or by 1 when that difference is below 1. It raises \<open>NotAuthenticated\<close>
  exactly when the rate so computed is above 5, and the session keeps the new window and
  count in that case too; otherwise the wrapped function runs on the world with the
  session so updated. For a request with no session, or on a session of any other role,
  the layer changes nothing and calls the wrapped function.
\<close>

theorem rate_limit_accounting:
  "(session w = Some s \<and> user_role s = ''whistleblower'' \<longrightarrow>
      (let reset = (clock w > ratelimit_time s + 30 * 1000000);
           start = (if reset then clock w else ratelimit_time s);
           count = (if reset then 0 else ratelimit_count s) + 1;
           rate = int_div_float E count
                    (max (float_sub E (timestamp E (clock w)) (timestamp E start)) 1);
           w' = w\<lparr>session := Some (s\<lparr>ratelimit_time := start, ratelimit_count := count\<rparr>)\<rparr>
       in decorator_rate_limit E f req w =
            (if rate > 5
             then \<lparr>trace = [Enter RateLimit], result = Inl NotAuthenticated, final = w'\<rparr>
             else after [Enter RateLimit] (f req w')) \<and>
          (admitted (decorator_rate_limit E (call m) req w) \<longleftrightarrow> rate \<le> 5))) \<and>
   (session w = None \<or> (\<exists>s'. session w = Some s' \<and> user_role s' \<noteq> ''whistleblower'') \<longrightarrow>
      decorator_rate_limit E f req w = after [Enter RateLimit] (f req w))"
  by (auto simp: decorator_rate_limit_def Let_def timedelta_seconds_def
                 admitted_def after_def raise_def)

theorem rate_limit_accounting_witness:
  "session (wb_world\<lparr>clock := 500000\<rparr>) = Some wb_session \<and>
   user_role wb_session = ''whistleblower'' \<and>
   decorator_rate_limit demo_env (call text_method) demo_request (wb_world\<lparr>clock := 500000\<rparr>) =
     after [Enter RateLimit]
       (call text_method demo_request
          (wb_world\<lparr>clock := 500000, session := Some (wb_session\<lparr>ratelimit_count := 1\<rparr>)\<rparr>)) \<and>
   decorator_rate_limit demo_env (call text_method) demo_request
       (wb_world\<lparr>clock := 500000, session := Some (wb_session\<lparr>ratelimit_count := 5\<rparr>)\<rparr>) =
     \<lparr>trace = [Enter RateLimit], result = Inl NotAuthenticated,
      final = wb_world\<lparr>clock := 500000, session := Some (wb_session\<lparr>ratelimit_count := 6\<rparr>)\<rparr>\<rparr> \<and>
   decorator_rate_limit demo_env (call text_method) demo_request
       (wb_world\<lparr>clock := 31000000, session := Some (wb_session\<lparr>ratelimit_count := 200\<rparr>)\<rparr>) =
     after [Enter RateLimit]
       (call text_method demo_request
          (wb_world\<lparr>clock := 31000000,
             session := Some (wb_session\<lparr>ratelimit_time := 31000000, ratelimit_count := 1\<rparr>)\<rparr>)) \<and>
   (\<exists>s. session admin_world = Some s \<and> user_role s \<noteq> ''whistleblower'') \<and>
   decorator_rate_limit demo_env (call text_method) demo_request admin_world =
     after [Enter RateLimit] (call text_method demo_request admin_world)"
proof -
  have r: "int_div_float demo_env 1 (max (float_sub demo_env (timestamp demo_env 500000)
             (timestamp demo_env 0)) 1) = 1"
      "int_div_float demo_env 6 (max (float_sub demo_env (timestamp demo_env 500000)
             (timestamp demo_env 0)) 1) = 6"
      "int_div_float demo_env 1 (max (float_sub demo_env (timestamp demo_env 31000000)
             (timestamp demo_env 31000000)) 1) = 1"
    by (simp_all add: demo_env_def python_env_def double_eval)
  show ?thesis
    using rate_limit_accounting [where w = "wb_world\<lparr>clock := 500000\<rparr>" and s = wb_session
          and f = "call text_method" and req = demo_request and E = demo_env]
        rate_limit_accounting [where w = "wb_world\<lparr>clock := 500000,
            session := Some (wb_session\<lparr>ratelimit_count := 5\<rparr>)\<rparr>"
          and s = "wb_session\<lparr>ratelimit_count := 5\<rparr>"
          and f = "call text_method" and req = demo_request and E = demo_env]
        rate_limit_accounting [where w = "wb_world\<lparr>clock := 31000000,
            session := Some (wb_session\<lparr>ratelimit_count := 200\<rparr>)\<rparr>"
          and s = "wb_session\<lparr>ratelimit_count := 200\<rparr>"
          and f = "call text_method" and req = demo_request and E = demo_env]
        rate_limit_accounting [where w = admin_world and f = "call text_method"
          and req = demo_request and E = demo_env]
        r
    by (simp add: wb_world_def admin_world_def anon_world_def wb_session_def admin_session_def
                  Let_def)
qed

text \<open>
  The claim C5 as stated, with the rate as the exact quotient, fails at the threshold:
  1.6 seconds into a window the eighth request has the rate 8 / 1.6 = 5, which is not
  above 5, but the timestamps differ by 3355443 / 2097152 as doubles, a little less than
  1.6, the computed rate is above 5, and the request is refused.
\<close>

theorem rate_limit_float_boundary:
  "session boundary_world = Some boundary_session \<and>
   user_role boundary_session = ''whistleblower'' \<and>
   clock boundary_world = ratelimit_time boundary_session + 1600000 \<and>
   ratelimit_count boundary_session + 1 = 8 \<and>
   \<not> real_of_int 8 / max (real_of_int 1600000 / 1000000) 1 > 5 \<and>
   float_sub python_env (timestamp python_env (clock boundary_world))
     (timestamp python_env (ratelimit_time boundary_session)) = 3355443 / 2097152 \<and>
   int_div_float python_env 8 (3355443 / 2097152) = 1407374967439365 / 281474976710656 \<and>
   decorator_rate_limit python_env (call text_method) demo_request boundary_world =
     \<lparr>trace = [Enter RateLimit], result = Inl NotAuthenticated,
      final = boundary_world\<lparr>session := Some (boundary_session\<lparr>ratelimit_count := 8\<rparr>)\<rparr>\<rparr>"
proof -
  have d: "float_sub python_env (timestamp python_env 1793793601600000)
             (timestamp python_env 1793793600000000) = 3355443 / 2097152"
    by (simp add: python_env_def double_eval)
  have q: "int_div_float python_env 8 (3355443 / 2097152) = 1407374967439365 / 281474976710656"
    by (simp add: python_env_def double_eval)
  have r: "5 < int_div_float python_env 8
                 (max (float_sub python_env (timestamp python_env 1793793601600000)
                         (timestamp python_env 1793793600000000)) 1)"
    unfolding d by (simp add: q)
  have c: "decorator_rate_limit python_env (call text_method) demo_request boundary_world =
     \<lparr>trace = [Enter RateLimit], result = Inl NotAuthenticated,
      final = boundary_world\<lparr>session := Some (boundary_session\<lparr>ratelimit_count := 8\<rparr>)\<rparr>\<rparr>"
    using r
    by (simp add: decorator_rate_limit_def boundary_world_def boundary_session_def anon_world_def
                  timedelta_seconds_def Let_def after_def raise_def)
  have w: "session boundary_world = Some boundary_session"
      "user_role boundary_session = ''whistleblower''"
      "clock boundary_world = ratelimit_time boundary_session + 1600000"
      "ratelimit_count boundary_session + 1 = 8"
    by (simp_all add: boundary_world_def boundary_session_def anon_world_def)
  have x: "\<not> real_of_int 8 / max (real_of_int 1600000 / 1000000) 1 > 5"
    by simp
  have d': "float_sub python_env (timestamp python_env (clock boundary_world))
     (timestamp python_env (ratelimit_time boundary_session)) = 3355443 / 2097152"
    using d by (simp add: boundary_world_def boundary_session_def anon_world_def)
  from w x d' q c show ?thesis by blast
qed

text \<open>
  In the first second of a window the rate is the count itself; a request that resets the
  window is let through. The raw method is supposed to leave the session alone.
\<close>

lemma rate_limit_first_second:
  assumes "session w = Some s" "user_role s = ''whistleblower''"
    and "clock w \<le> ratelimit_time s + timedelta_seconds 30"
    and "float_sub E (timestamp E (clock w)) (timestamp E (ratelimit_time s)) \<le> 1"
    and "int_div_float E (ratelimit_count s + 1) 1 = real_of_int (ratelimit_count s + 1)"
    and pres: "\<forall>r v. session (snd (m r v)) = session v"
  shows "admitted (decorator_rate_limit E (call m) req w) \<longleftrightarrow> ratelimit_count s + 1 \<le> 5"
    and "session (final (decorator_rate_limit E (call m) req w)) =
           Some (s\<lparr>ratelimit_count := ratelimit_count s + 1\<rparr>)"
proof -
  have p: "max (float_sub E (timestamp E (clock w)) (timestamp E (ratelimit_time s))) 1 = 1"
    using assms(4) by (simp add: max_def)
  show "admitted (decorator_rate_limit E (call m) req w) \<longleftrightarrow> ratelimit_count s + 1 \<le> 5"
    using assms(1-3) p assms(5)
    by (auto simp: decorator_rate_limit_def Let_def admitted_def)
  show "session (final (decorator_rate_limit E (call m) req w)) =
           Some (s\<lparr>ratelimit_count := ratelimit_count s + 1\<rparr>)"
    using assms(1-3) p assms(5) pres
    by (auto simp: decorator_rate_limit_def Let_def)
qed

lemma rate_limit_reset:
  assumes "session w = Some s" "user_role s = ''whistleblower''"
    and "clock w > ratelimit_time s + timedelta_seconds 30"
    and "float_sub E (timestamp E (clock w)) (timestamp E (clock w)) \<le> 1"
    and "int_div_float E 1 1 = 1"
    and pres: "\<forall>r v. session (snd (m r v)) = session v"
  shows "admitted (decorator_rate_limit E (call m) req w)"
    and "session (final (decorator_rate_limit E (call m) req w)) =
           Some (s\<lparr>ratelimit_time := clock w, ratelimit_count := 1\<rparr>)"
proof -
  have p: "max (float_sub E (timestamp E (clock w)) (timestamp E (clock w))) 1 = 1"
    using assms(4) by (simp add: max_def)
  show "admitted (decorator_rate_limit E (call m) req w)"
    using assms(1-3) p assms(5)
    by (auto simp: decorator_rate_limit_def Let_def admitted_def)
  show "session (final (decorator_rate_limit E (call m) req w)) =
           Some (s\<lparr>ratelimit_time := clock w, ratelimit_count := 1\<rparr>)"
    using assms(1-3) p assms(5) pres
    by (auto simp: decorator_rate_limit_def Let_def)
qed

lemma burst_tail:
  assumes pres: "\<forall>r v. session (snd (m r v)) = session v"
  shows "session w = Some s \<Longrightarrow> user_role s = ''whistleblower'' \<Longrightarrow>
         \<forall>t \<in> set ts. t \<le> ratelimit_time s + timedelta_seconds 30 \<and>
            float_sub E (timestamp E t) (timestamp E (ratelimit_time s)) \<le> 1 \<Longrightarrow>
         \<forall>n. ratelimit_count s < n \<and> n \<le> ratelimit_count s + int (length ts) \<longrightarrow>
            int_div_float E n 1 = real_of_int n \<Longrightarrow>
         map admitted (submit (decorator_rate_limit E (call m)) req ts w) =
           map (\<lambda>i. ratelimit_count s + 1 + int i \<le> 5) [0..<length ts]"
proof (induction ts arbitrary: w s)
  case Nil
  show ?case by simp
next
  case (Cons t ts)
  let ?w = "w\<lparr>clock := t\<rparr>"
  let ?d = "decorator_rate_limit E (call m) req ?w"
  let ?s = "s\<lparr>ratelimit_count := ratelimit_count s + 1\<rparr>"
  have w: "session ?w = Some s" "clock ?w \<le> ratelimit_time s + timedelta_seconds 30"
      "float_sub E (timestamp E (clock ?w)) (timestamp E (ratelimit_time s)) \<le> 1"
    using Cons.prems by simp_all
  have n: "int_div_float E (ratelimit_count s + 1) 1 = real_of_int (ratelimit_count s + 1)"
    using Cons.prems(4) by simp
  have a: "admitted ?d \<longleftrightarrow> ratelimit_count s + 1 \<le> 5"
    by (rule rate_limit_first_second(1) [OF w(1) Cons.prems(2) w(2) w(3) n pres])
  have s: "session (final ?d) = Some ?s"
    by (rule rate_limit_first_second(2) [OF w(1) Cons.prems(2) w(2) w(3) n pres])
  have "map admitted (submit (decorator_rate_limit E (call m)) req ts (final ?d)) =
          map (\<lambda>i. ratelimit_count ?s + 1 + int i \<le> 5) [0..<length ts]"
    using Cons.prems by (intro Cons.IH [OF s]) simp_all
  then show ?case
    using a by (simp add: Let_def map_upt_Suc del: upt_Suc)
qed

text \<open>
  Claim C6, as amended. On a session of the role \<open>whistleblower\<close> a request reaches the
  handler exactly when the rate the code computes for it (the count since the start of
  the window, this request included, over the floating-point time since the start of the
  window or 1) is not above 5. So when a request resets the window at time \<open>t0\<close> and
  further requests follow within the first second (the time since \<open>t0\<close> that the code
  computes being at most 1, and counts divided by 1 being exact), the resetting request
  and the four after it are let through and the sixth and every later one are rejected:
  request number \<open>i\<close> of the run, counted from 0, reaches the handler exactly when
  \<open>i < 5\<close>. A burst in a later second of the window is rejected only as far as the
  computed rate over the whole window is above 5. A request with no session, or on a
  session of any other role, is never rejected by this layer.
\<close>

theorem rate_limit_burst:
  "(session w = Some s \<and> user_role s = ''whistleblower'' \<longrightarrow>
      (let reset = (clock w > ratelimit_time s + 30 * 1000000);
           start = (if reset then clock w else ratelimit_time s);
           count = (if reset then 0 else ratelimit_count s) + 1;
           rate = int_div_float E count
                    (max (float_sub E (timestamp E (clock w)) (timestamp E start)) 1)
       in admitted (decorator_rate_limit E (call m) req w) \<longleftrightarrow> \<not> rate > 5)) \<and>
   (session w = Some s \<and> user_role s = ''whistleblower'' \<and>
    t0 > ratelimit_time s + 30 * 1000000 \<and>
    (\<forall>t \<in> set (t0 # ts). t \<le> t0 + 30 * 1000000 \<and>
        float_sub E (timestamp E t) (timestamp E t0) \<le> 1) \<and>
    (\<forall>n. 1 \<le> n \<and> n \<le> 1 + int (length ts) \<longrightarrow> int_div_float E n 1 = real_of_int n) \<and>
    (\<forall>r v. session (snd (m r v)) = session v) \<longrightarrow>
      map admitted (submit (decorator_rate_limit E (call m)) req (t0 # ts) w) =
        map (\<lambda>i. i < 5) [0..<Suc (length ts)]) \<and>
   (session w = None \<or> (\<exists>s'. session w = Some s' \<and> user_role s' \<noteq> ''whistleblower'') \<longrightarrow>
      decorator_rate_limit E f req w = after [Enter RateLimit] (f req w) \<and>
      admitted (decorator_rate_limit E (call m) req w))"
proof (intro conjI impI)
  assume "session w = Some s \<and> user_role s = ''whistleblower''"
  then show "let reset = (clock w > ratelimit_time s + 30 * 1000000);
           start = (if reset then clock w else ratelimit_time s);
           count = (if reset then 0 else ratelimit_count s) + 1;
           rate = int_div_float E count
                    (max (float_sub E (timestamp E (clock w)) (timestamp E start)) 1)
       in admitted (decorator_rate_limit E (call m) req w) \<longleftrightarrow> \<not> rate > 5"
    by (auto simp: decorator_rate_limit_def Let_def timedelta_seconds_def admitted_def)
next
  assume h: "session w = Some s \<and> user_role s = ''whistleblower'' \<and>
    t0 > ratelimit_time s + 30 * 1000000 \<and>
    (\<forall>t \<in> set (t0 # ts). t \<le> t0 + 30 * 1000000 \<and>
        float_sub E (timestamp E t) (timestamp E t0) \<le> 1) \<and>
    (\<forall>n. 1 \<le> n \<and> n \<le> 1 + int (length ts) \<longrightarrow> int_div_float E n 1 = real_of_int n) \<and>
    (\<forall>r v. session (snd (m r v)) = session v)"
  let ?w = "w\<lparr>clock := t0\<rparr>"
  let ?d = "decorator_rate_limit E (call m) req ?w"
  let ?s = "s\<lparr>ratelimit_time := t0, ratelimit_count := 1\<rparr>"
  from h have pres: "\<forall>r v. session (snd (m r v)) = session v" by blast
  have w: "session ?w = Some s" "clock ?w > ratelimit_time s + timedelta_seconds 30"
      "float_sub E (timestamp E (clock ?w)) (timestamp E (clock ?w)) \<le> 1"
    using h by (simp_all add: timedelta_seconds_def)
  have r: "user_role s = ''whistleblower''" using h by blast
  have one: "int_div_float E 1 1 = 1" using h by simp
  have a: "admitted ?d"
    by (rule rate_limit_reset(1) [OF w(1) r w(2) w(3) one pres])
  have s: "session (final ?d) = Some ?s"
    using rate_limit_reset(2) [OF w(1) r w(2) w(3) one pres] by simp
  have "map admitted (submit (decorator_rate_limit E (call m)) req ts (final ?d)) =
          map (\<lambda>i. ratelimit_count ?s + 1 + int i \<le> 5) [0..<length ts]"
    using h by (intro burst_tail [OF pres s]) (simp_all add: timedelta_seconds_def)
  then show "map admitted (submit (decorator_rate_limit E (call m)) req (t0 # ts) w) =
        map (\<lambda>i. i < 5) [0..<Suc (length ts)]"
    using a by (simp add: Let_def map_upt_Suc del: upt_Suc) auto
next
  assume "session w = None \<or> (\<exists>s'. session w = Some s' \<and> user_role s' \<noteq> ''whistleblower'')"
  then show "decorator_rate_limit E f req w = after [Enter RateLimit] (f req w)"
    by (auto simp: decorator_rate_limit_def)
next
  assume "session w = None \<or> (\<exists>s'. session w = Some s' \<and> user_role s' \<noteq> ''whistleblower'')"
  then show "admitted (decorator_rate_limit E (call m) req w)"
    by (auto simp: decorator_rate_limit_def admitted_def)
qed

theorem rate_limit_burst_witness:
  "session wb_world = Some wb_session \<and> user_role wb_session = ''whistleblower'' \<and>
   1793793600000000 > ratelimit_time wb_session + 30 * 1000000 \<and>
   list_all (\<lambda>t. t \<le> 1793793600000000 + 30 * 1000000 \<and>
                float_sub demo_env (timestamp demo_env t) (timestamp demo_env 1793793600000000) \<le> 1)
     [1793793600000000, 1793793600000000, 1793793600100000, 1793793600200000,
      1793793600300000, 1793793600400000, 1793793601000000] \<and>
   int_div_float demo_env 6 1 = 6 \<and>
   session (snd (text_method demo_request wb_world)) = session wb_world \<and>
   map admitted (submit (decorator_rate_limit demo_env (call text_method)) demo_request
     [1793793600000000, 1793793600000000, 1793793600100000, 1793793600200000,
      1793793600300000, 1793793600400000, 1793793601000000] wb_world) =
     [True, True, True, True, True, False, False] \<and>
   (\<exists>s. session admin_world = Some s \<and> user_role s \<noteq> ''whistleblower'') \<and>
   admitted (decorator_rate_limit demo_env (call text_method) demo_request admin_world)"
proof -
  let ?t0 = "1793793600000000 :: int"
  let ?ts = "[1793793600000000 :: int, 1793793600100000, 1793793600200000,
              1793793600300000, 1793793600400000, 1793793601000000]"
  have h: "session wb_world = Some wb_session" "user_role wb_session = ''whistleblower''"
      "?t0 > ratelimit_time wb_session + 30 * 1000000"
      "\<forall>r v. session (snd (text_method r v)) = session v"
    by (simp_all add: wb_world_def anon_world_def wb_session_def text_method_def)
  have t: "\<forall>t \<in> set (?t0 # ?ts). t \<le> ?t0 + 30 * 1000000 \<and>
             float_sub demo_env (timestamp demo_env t) (timestamp demo_env ?t0) \<le> 1"
    by (simp add: demo_env_def python_env_def double_eval)
  have n: "\<forall>n. 1 \<le> n \<and> n \<le> 1 + int (length ?ts) \<longrightarrow>
             int_div_float demo_env n 1 = real_of_int n"
    by (simp add: demo_env_def python_env_def python_int_div_float_one)
  have o: "\<exists>s. session admin_world = Some s \<and> user_role s \<noteq> ''whistleblower''"
    by (simp add: admin_world_def admin_session_def)
  have e: "map (\<lambda>i. i < 5) [0..<Suc (length ?ts)] = [True, True, True, True, True, False, False]"
    by (simp add: upt_rec)
  from rate_limit_burst [where w = wb_world and s = wb_session and ?t0.0 = ?t0
      and ts = ?ts and m = text_method and req = demo_request and E = demo_env] h t n
  have "map admitted (submit (decorator_rate_limit demo_env (call text_method)) demo_request
          (?t0 # ?ts) wb_world) = map (\<lambda>i. i < 5) [0..<Suc (length ?ts)]"
    by blast
  with e have b: "map admitted (submit (decorator_rate_limit demo_env (call text_method))
          demo_request (?t0 # ?ts) wb_world) = [True, True, True, True, True, False, False]"
    by simp
  from rate_limit_burst [where w = admin_world and m = text_method and req = demo_request
      and E = demo_env] o
  have a: "admitted (decorator_rate_limit demo_env (call text_method) demo_request admin_world)"
    by blast
  have l: "list_all (\<lambda>t. t \<le> ?t0 + 30 * 1000000 \<and>
              float_sub demo_env (timestamp demo_env t) (timestamp demo_env ?t0) \<le> 1) (?t0 # ?ts)"
    using t by (simp only: list_all_iff)
  have six: "int_div_float demo_env 6 1 = 6"
    using n by simp
  from h(1-3) h(4) [rule_format, of demo_request wb_world] l six o b a show ?thesis
    by blast
qed

text \<open>
  A run of requests inside one window that are all let through, given their rates.
\<close>

lemma rate_limit_in_window:
  assumes "session w = Some s" "user_role s = ''whistleblower''"
    and "clock w \<le> ratelimit_time s + timedelta_seconds 30"
    and "\<not> int_div_float E (ratelimit_count s + 1)
             (max (float_sub E (timestamp E (clock w)) (timestamp E (ratelimit_time s))) 1) > 5"
    and pres: "\<forall>r v. session (snd (m r v)) = session v"
  shows "admitted (decorator_rate_limit E (call m) req w)"
    and "session (final (decorator_rate_limit E (call m) req w)) =
           Some (s\<lparr>ratelimit_count := ratelimit_count s + 1\<rparr>)"
  using assms by (auto simp: decorator_rate_limit_def Let_def admitted_def)

lemma run_in_window:
  assumes pres: "\<forall>r v. session (snd (m r v)) = session v"
  shows "session w = Some s \<Longrightarrow> user_role s = ''whistleblower'' \<Longrightarrow>
         list_all (\<lambda>(i, t). t \<le> ratelimit_time s + timedelta_seconds 30 \<and>
            \<not> int_div_float E (ratelimit_count s + 1 + int i)
                (max (float_sub E (timestamp E t) (timestamp E (ratelimit_time s))) 1) > 5)
           (enumerate 0 ts) \<Longrightarrow>
         list_all admitted (submit (decorator_rate_limit E (call m)) req ts w)"
proof (induction ts arbitrary: w s)
  case Nil
  show ?case by simp
next
  case (Cons t ts)
  let ?w = "w\<lparr>clock := t\<rparr>"
  let ?d = "decorator_rate_limit E (call m) req ?w"
  let ?s = "s\<lparr>ratelimit_count := ratelimit_count s + 1\<rparr>"
  have w: "session ?w = Some s" "clock ?w \<le> ratelimit_time s + timedelta_seconds 30"
      "\<not> int_div_float E (ratelimit_count s + 1)
             (max (float_sub E (timestamp E (clock ?w)) (timestamp E (ratelimit_time s))) 1) > 5"
    using Cons.prems by simp_all
  have a: "admitted ?d"
    by (rule rate_limit_in_window(1) [OF w(1) Cons.prems(2) w(2) w(3) pres])
  have s: "session (final ?d) = Some ?s"
    by (rule rate_limit_in_window(2) [OF w(1) Cons.prems(2) w(2) w(3) pres])
  have r: "user_role ?s = ''whistleblower''"
    using Cons.prems(2) by simp
  have "list_all (\<lambda>(i, t). t \<le> ratelimit_time ?s + timedelta_seconds 30 \<and>
            \<not> int_div_float E (ratelimit_count ?s + 1 + int i)
                (max (float_sub E (timestamp E t) (timestamp E (ratelimit_time ?s))) 1) > 5)
           (enumerate 0 ts)"
    using Cons.prems(3)
    by (simp add: enumerate_Suc_eq list_all_iff add.commute add.left_commute split_beta)
  from Cons.IH [OF s r this] a show ?case
    by (simp add: Let_def)
qed

text \<open>
  The claim C6 as stated fails for a second that is not the first of the window: after a
  reset, six requests between 10.0 and 10.5 seconds later are all let through, since the
  rate is at most 7 requests over 10 seconds.
\<close>

theorem late_burst_not_rejected:
  "map admitted (submit (decorator_rate_limit python_env (call text_method)) demo_request
     [1793793600000000, 1793793610000000, 1793793610100000, 1793793610200000,
      1793793610300000, 1793793610400000, 1793793610500000] wb_world) =
     [True, True, True, True, True, True, True]"
proof -
  let ?F = "decorator_rate_limit python_env (call text_method)"
  let ?t0 = "1793793600000000 :: int"
  let ?ts = "[1793793610000000 :: int, 1793793610100000, 1793793610200000,
              1793793610300000, 1793793610400000, 1793793610500000]"
  let ?w = "wb_world\<lparr>clock := ?t0\<rparr>"
  let ?s = "wb_session\<lparr>ratelimit_time := ?t0, ratelimit_count := 1\<rparr>"
  have pres: "\<forall>r v. session (snd (text_method r v)) = session v"
    by (simp add: text_method_def)
  have one: "int_div_float python_env 1
               (max (float_sub python_env (timestamp python_env ?t0) (timestamp python_env ?t0)) 1) = 1"
    by (simp add: python_env_def double_eval)
  have a: "admitted (?F demo_request ?w)"
    by (simp add: decorator_rate_limit_def wb_world_def anon_world_def wb_session_def
          timedelta_seconds_def Let_def one)
  have s: "session (final (?F demo_request ?w)) = Some ?s"
    by (simp add: decorator_rate_limit_def wb_world_def anon_world_def wb_session_def
          timedelta_seconds_def Let_def one text_method_def)
  have r: "user_role ?s = ''whistleblower''"
    by (simp add: wb_session_def)
  have c: "list_all (\<lambda>(i, t). t \<le> ratelimit_time ?s + timedelta_seconds 30 \<and>
            \<not> int_div_float python_env (ratelimit_count ?s + 1 + int i)
                (max (float_sub python_env (timestamp python_env t)
                        (timestamp python_env (ratelimit_time ?s))) 1) > 5)
           (enumerate 0 ?ts)"
    unfolding enumerate_eq_zip
    by (simp add: upt_rec timedelta_seconds_def wb_session_def)
       (simp add: python_env_def double_eval)
  have "list_all admitted (submit ?F demo_request ?ts (final (?F demo_request ?w)))"
    by (rule run_in_window [OF pres s r c])
  with a show ?thesis
    by (simp add: Let_def)
qed

section \<open>The response cache\<close>

text \<open>
  Claim C2. When the cache holds an entry for the tenant, path and language of the
  request, the cache layer sets the content type of the response from the entry and
  returns the stored body, and the wrapped function is not called. When there is no
  entry, the wrapped function is called; an error it raises is the outcome of the call
  and nothing is stored; a result that is a dict or a list is serialized, the content
  type is set to \<open>application/json\<close>, and the pair of content type and serialized body is
  stored under the key and the body returned; any other result is stored as it is, with
  the content type of the response (\<open>application/json\<close> when none is set), and returned.
  After a miss that succeeded, a lookup of the key finds the pair whose body was
  returned. The raw method is reached exactly on a miss.
\<close>

theorem cache_get_hit_or_miss:
  "(Cache_get (cache w) (tid req) (path req) (language req) = Some (ct, body) \<longrightarrow>
      decorator_cache_get E f req w =
        \<lparr>trace = [Enter CacheGet], result = Inr body, final = w\<lparr>content_type := Some ct\<rparr>\<rparr>) \<and>
   (Cache_get (cache w) (tid req) (path req) (language req) = None \<and>
        result (f req w) = Inl e \<longrightarrow>
      decorator_cache_get E f req w = after [Enter CacheGet] (f req w)) \<and>
   (Cache_get (cache w) (tid req) (path req) (language req) = None \<and>
        result (f req w) = Inr data \<and> is_dict_or_list data \<longrightarrow>
      decorator_cache_get E f req w =
        \<lparr>trace = Enter CacheGet # trace (f req w) @
                 [Stored (tid req, path req, language req)
                    (''application/json'', PyStr (dumps E data))],
         result = Inr (PyStr (dumps E data)),
         final = (final (f req w))
           \<lparr>content_type := Some ''application/json'',
            cache := (cache (final (f req w)))
              ((tid req, path req, language req) \<mapsto>
                 (''application/json'', PyStr (dumps E data)))\<rparr>\<rparr>) \<and>
   (Cache_get (cache w) (tid req) (path req) (language req) = None \<and>
        result (f req w) = Inr data \<and> \<not> is_dict_or_list data \<longrightarrow>
      (let ct = (case content_type (final (f req w)) of
                   None \<Rightarrow> ''application/json'' | Some v \<Rightarrow> v)
       in decorator_cache_get E f req w =
            \<lparr>trace = Enter CacheGet # trace (f req w) @
                     [Stored (tid req, path req, language req) (ct, data)],
             result = Inr data,
             final = (final (f req w))
               \<lparr>cache := (cache (final (f req w)))
                  ((tid req, path req, language req) \<mapsto> (ct, data))\<rparr>\<rparr>)) \<and>
   (Cache_get (cache w) (tid req) (path req) (language req) = None \<and>
        result (f req w) = Inr data \<longrightarrow>
      (\<exists>ct body. result (decorator_cache_get E f req w) = Inr body \<and>
         Cache_get (cache (final (decorator_cache_get E f req w)))
           (tid req) (path req) (language req) = Some (ct, body))) \<and>
   (admitted (decorator_cache_get E (call m) req w) \<longleftrightarrow>
      Cache_get (cache w) (tid req) (path req) (language req) = None)"
proof -
  have "admitted (decorator_cache_get E (call m) req w) \<longleftrightarrow>
          Cache_get (cache w) (tid req) (path req) (language req) = None"
    by (cases "fst (m req w)")
       (simp_all add: decorator_cache_get_def admitted_def Let_def split: option.splits)
  then show ?thesis
    by (simp add: decorator_cache_get_def Cache_set_def Cache_get_def after_def Let_def)
qed

theorem cache_get_hit_or_miss_witness:
  "Cache_get (cache cached_world) (tid demo_request) (path demo_request) (language demo_request) =
     Some (''text/plain'', PyBytes ''hello'') \<and>
   decorator_cache_get demo_env (call list_method) demo_request cached_world =
     \<lparr>trace = [Enter CacheGet], result = Inr (PyBytes ''hello''),
      final = cached_world\<lparr>content_type := Some ''text/plain''\<rparr>\<rparr> \<and>
   Cache_get (cache anon_world) (tid demo_request) (path demo_request) (language demo_request) = None \<and>
   result (call failing_method demo_request anon_world) = Inl (OtherError ''boom'') \<and>
   decorator_cache_get demo_env (call failing_method) demo_request anon_world =
     after [Enter CacheGet] (call failing_method demo_request anon_world) \<and>
   result (call list_method demo_request anon_world) = Inr (PyList []) \<and>
   is_dict_or_list (PyList []) \<and>
   trace (decorator_cache_get demo_env (call list_method) demo_request anon_world) =
     [Enter CacheGet, Handler_called,
      Stored (1, ''/api/public'', ''en'') (''application/json'', PyStr ''[]'')] \<and>
   result (decorator_cache_get demo_env (call list_method) demo_request anon_world) =
     Inr (PyStr ''[]'') \<and>
   content_type (final (decorator_cache_get demo_env (call list_method) demo_request anon_world)) =
     Some ''application/json'' \<and>
   Cache_get (cache (final (decorator_cache_get demo_env (call list_method) demo_request anon_world)))
     1 ''/api/public'' ''en'' = Some (''application/json'', PyStr ''[]'') \<and>
   result (call text_method demo_request anon_world) = Inr (PyBytes ''ok'') \<and>
   \<not> is_dict_or_list (PyBytes ''ok'') \<and>
   result (decorator_cache_get demo_env (call text_method) demo_request anon_world) =
     Inr (PyBytes ''ok'') \<and>
   Cache_get (cache (final (decorator_cache_get demo_env (call text_method) demo_request anon_world)))
     1 ''/api/public'' ''en'' = Some (''application/json'', PyBytes ''ok'')"
  using cache_get_hit_or_miss [where w = cached_world and req = demo_request and E = demo_env
          and f = "call list_method" and ct = "''text/plain''" and body = "PyBytes ''hello''"]
        cache_get_hit_or_miss [where w = anon_world and req = demo_request and E = demo_env
          and f = "call failing_method" and e = "OtherError ''boom''"]
        cache_get_hit_or_miss [where w = anon_world and req = demo_request and E = demo_env
          and f = "call list_method" and data = "PyList []"]
        cache_get_hit_or_miss [where w = anon_world and req = demo_request and E = demo_env
          and f = "call text_method" and data = "PyBytes ''ok''"]
  by (simp add: cached_world_def anon_world_def demo_request_def demo_env_def python_env_def
                list_method_def text_method_def failing_method_def Cache_get_def Let_def)

text \<open>
  Claim C3, as amended. The wrapper is the arrival step followed by the firing of the
  deferred. A request that finds no entry for its key calls the wrapped function, whatever
  else is pending: the layer keeps no mark of a computation in flight, so a second request
  for the key that arrives after the first has called the handler and before the first
  has stored its result finds no entry either and calls the handler too. When the
  deferred of a request fires with a value, the callback stores the content type and
  body under the key, touching no other key, and returns the body; from then on a request
  for the key is served the stored body without a call of the handler, until the entries
  of the tenant are invalidated, after which a request calls the handler again. When the
  deferred fires with a failure nothing is stored.
\<close>

theorem cache_get_no_single_flight:
  "decorator_cache_get E f req w =
     after [Enter CacheGet]
       (case cache_get_arrival f req w of
          Served d \<Rightarrow> d
        | Pending d \<Rightarrow> cache_get_fire E req d (final d)) \<and>
   (Cache_get (cache w) (tid req) (path req) (language req) = None \<longrightarrow>
      cache_get_arrival f req w = Pending (f req w)) \<and>
   (Cache_get (cache w) (tid req) (path req) (language req) = None \<and>
    Cache_get (cache (final (f req w))) (tid req) (path req) (language req) = None \<and>
    cache w2 = cache (final (f req w)) \<longrightarrow>
      cache_get_arrival f req w2 = Pending (f req w2)) \<and>
   (result d = Inr data \<longrightarrow>
      (\<exists>ct body.
         result (cache_get_fire E req d w3) = Inr body \<and>
         trace (cache_get_fire E req d w3) =
           trace d @ [Stored (tid req, path req, language req) (ct, body)] \<and>
         Cache_get (cache (final (cache_get_fire E req d w3)))
           (tid req) (path req) (language req) = Some (ct, body) \<and>
         (\<forall>k. k \<noteq> (tid req, path req, language req) \<longrightarrow>
              cache (final (cache_get_fire E req d w3)) k = cache w3 k) \<and>
         (\<forall>w4. cache w4 = cache (final (cache_get_fire E req d w3)) \<longrightarrow>
              cache_get_arrival f req w4 =
                Served \<lparr>trace = [], result = Inr body,
                        final = w4\<lparr>content_type := Some ct\<rparr>\<rparr>))) \<and>
   (result d = Inl e \<longrightarrow>
      cache_get_fire E req d w3 = \<lparr>trace = trace d, result = Inl e, final = w3\<rparr>) \<and>
   (cache w5 = Cache_invalidate (cache w3) (tid req) \<longrightarrow>
      cache_get_arrival f req w5 = Pending (f req w5))"
proof (intro conjI impI)
  show "decorator_cache_get E f req w =
     after [Enter CacheGet]
       (case cache_get_arrival f req w of
          Served d \<Rightarrow> d
        | Pending d \<Rightarrow> cache_get_fire E req d (final d))"
    by (simp add: decorator_cache_get_def cache_get_arrival_def cache_get_fire_def
          cache_get_callback_def after_def Let_def split: option.splits sum.splits)
next
  assume "Cache_get (cache w) (tid req) (path req) (language req) = None"
  then show "cache_get_arrival f req w = Pending (f req w)"
    by (simp add: cache_get_arrival_def)
next
  assume "Cache_get (cache w) (tid req) (path req) (language req) = None \<and>
    Cache_get (cache (final (f req w))) (tid req) (path req) (language req) = None \<and>
    cache w2 = cache (final (f req w))"
  then show "cache_get_arrival f req w2 = Pending (f req w2)"
    by (simp add: cache_get_arrival_def)
next
  assume r: "result d = Inr data"
  let ?c = "cache_get_callback E req data w3"
  have f: "cache_get_fire E req d w3 = after (trace d) ?c"
    using r by (simp add: cache_get_fire_def)
  obtain ct body where s: "trace ?c = [Stored (tid req, path req, language req) (ct, body)]"
      "result ?c = Inr body"
      "cache (final ?c) = (cache w3)((tid req, path req, language req) \<mapsto> (ct, body))"
    by (cases "is_dict_or_list data")
       (simp_all add: cache_get_callback_def Cache_set_def Let_def)
  show "\<exists>ct body.
         result (cache_get_fire E req d w3) = Inr body \<and>
         trace (cache_get_fire E req d w3) =
           trace d @ [Stored (tid req, path req, language req) (ct, body)] \<and>
         Cache_get (cache (final (cache_get_fire E req d w3)))
           (tid req) (path req) (language req) = Some (ct, body) \<and>
         (\<forall>k. k \<noteq> (tid req, path req, language req) \<longrightarrow>
              cache (final (cache_get_fire E req d w3)) k = cache w3 k) \<and>
         (\<forall>w4. cache w4 = cache (final (cache_get_fire E req d w3)) \<longrightarrow>
              cache_get_arrival f req w4 =
                Served \<lparr>trace = [], result = Inr body,
                        final = w4\<lparr>content_type := Some ct\<rparr>\<rparr>)"
    unfolding f using s
    by (intro exI [of _ ct] exI [of _ body]) (simp add: Cache_get_def cache_get_arrival_def)
next
  assume "result d = Inl e"
  then show "cache_get_fire E req d w3 = \<lparr>trace = trace d, result = Inl e, final = w3\<rparr>"
    by (simp add: cache_get_fire_def)
next
  assume "cache w5 = Cache_invalidate (cache w3) (tid req)"
  then show "cache_get_arrival f req w5 = Pending (f req w5)"
    by (simp add: cache_get_arrival_def Cache_get_def Cache_invalidate_def)
qed

theorem cache_get_no_single_flight_witness:
  "Cache_get (cache anon_world) (tid demo_request) (path demo_request) (language demo_request) = None \<and>
   cache_get_arrival (call list_method) demo_request anon_world =
     Pending (call list_method demo_request anon_world) \<and>
   Cache_get (cache (final (call list_method demo_request anon_world)))
     (tid demo_request) (path demo_request) (language demo_request) = None \<and>
   cache_get_arrival (call list_method) demo_request admin_world =
     Pending (call list_method demo_request admin_world) \<and>
   result (call list_method demo_request anon_world) = Inr (PyList []) \<and>
   result (cache_get_fire demo_env demo_request
             (call list_method demo_request anon_world) anon_world) = Inr (PyStr ''[]'') \<and>
   cache_get_arrival (call list_method) demo_request
       (final (cache_get_fire demo_env demo_request
                 (call list_method demo_request anon_world) anon_world)) =
     Served \<lparr>trace = [], result = Inr (PyStr ''[]''),
             final = (final (cache_get_fire demo_env demo_request
                        (call list_method demo_request anon_world) anon_world))
               \<lparr>content_type := Some ''application/json''\<rparr>\<rparr> \<and>
   result (call failing_method demo_request anon_world) = Inl (OtherError ''boom'') \<and>
   cache_get_fire demo_env demo_request (call failing_method demo_request anon_world) anon_world =
     \<lparr>trace = [Handler_called], result = Inl (OtherError ''boom''), final = anon_world\<rparr> \<and>
   cache cached_world \<noteq> Cache_invalidate (cache cached_world) 1 \<and>
   cache_get_arrival (call list_method) demo_request
       (cached_world\<lparr>cache := Cache_invalidate (cache cached_world) (tid demo_request)\<rparr>) =
     Pending (call list_method demo_request
       (cached_world\<lparr>cache := Cache_invalidate (cache cached_world) (tid demo_request)\<rparr>))"
proof -
  have n: "Cache_get (cache anon_world) (tid demo_request) (path demo_request)
             (language demo_request) = None"
      "Cache_get (cache (final (call list_method demo_request anon_world)))
         (tid demo_request) (path demo_request) (language demo_request) = None"
      "cache admin_world = cache (final (call list_method demo_request anon_world))"
      "result (call list_method demo_request anon_world) = Inr (PyList [])"
      "result (call failing_method demo_request anon_world) = Inl (OtherError ''boom'')"
    by (simp_all add: Cache_get_def anon_world_def admin_world_def list_method_def
          failing_method_def)
  note t = cache_get_no_single_flight [where E = demo_env and f = "call list_method"
      and req = demo_request and w = anon_world and ?w2.0 = admin_world
      and d = "call list_method demo_request anon_world" and data = "PyList []"
      and ?w3.0 = anon_world]
  note u = cache_get_no_single_flight [where E = demo_env and f = "call list_method"
      and req = demo_request and d = "call failing_method demo_request anon_world"
      and e = "OtherError ''boom''" and ?w3.0 = cached_world
      and ?w5.0 = "cached_world\<lparr>cache := Cache_invalidate (cache cached_world) (tid demo_request)\<rparr>"]
  note v = cache_get_no_single_flight [where E = demo_env and f = "call list_method"
      and req = demo_request and d = "call failing_method demo_request anon_world"
      and e = "OtherError ''boom''" and ?w3.0 = anon_world]
  have a1: "cache_get_arrival (call list_method) demo_request anon_world =
              Pending (call list_method demo_request anon_world)"
    using t n(1) by blast
  have a2: "cache_get_arrival (call list_method) demo_request admin_world =
              Pending (call list_method demo_request admin_world)"
    using t n(1,2,3) by blast
  have f1: "result (cache_get_fire demo_env demo_request
             (call list_method demo_request anon_world) anon_world) = Inr (PyStr ''[]'')"
    by (simp add: cache_get_fire_def cache_get_callback_def Cache_set_def list_method_def
          demo_env_def python_env_def Let_def)
  have f2: "cache_get_arrival (call list_method) demo_request
       (final (cache_get_fire demo_env demo_request
                 (call list_method demo_request anon_world) anon_world)) =
     Served \<lparr>trace = [], result = Inr (PyStr ''[]''),
             final = (final (cache_get_fire demo_env demo_request
                        (call list_method demo_request anon_world) anon_world))
               \<lparr>content_type := Some ''application/json''\<rparr>\<rparr>"
    by (simp add: cache_get_arrival_def cache_get_fire_def cache_get_callback_def Cache_set_def
          Cache_get_def list_method_def demo_env_def python_env_def demo_request_def Let_def)
  have f3: "cache_get_fire demo_env demo_request (call failing_method demo_request anon_world)
              anon_world =
     \<lparr>trace = [Handler_called], result = Inl (OtherError ''boom''), final = anon_world\<rparr>"
    using v n(5) by simp
  have i1: "cache cached_world \<noteq> Cache_invalidate (cache cached_world) 1"
    by (auto simp: cached_world_def Cache_invalidate_def fun_eq_iff)
  have i2: "cache_get_arrival (call list_method) demo_request
       (cached_world\<lparr>cache := Cache_invalidate (cache cached_world) (tid demo_request)\<rparr>) =
     Pending (call list_method demo_request
       (cached_world\<lparr>cache := Cache_invalidate (cache cached_world) (tid demo_request)\<rparr>))"
    using u by simp
  from n(1) a1 n(2) a2 n(4) f1 f2 n(5) f3 i1 i2 show ?thesis by blast
qed

text \<open>
  The claim C3 as stated fails: with no entry for the key, a first request calls the
  handler, a second request arriving before the first callback calls the handler again,
  and both callbacks store, with no invalidation in between.
\<close>

theorem concurrent_misses_both_call_handler:
  "Cache_get (cache anon_world) (tid demo_request) (path demo_request) (language demo_request) = None \<and>
   cache_get_arrival (call list_method) demo_request anon_world =
     Pending \<lparr>trace = [Handler_called], result = Inr (PyList []), final = anon_world\<rparr> \<and>
   cache_get_arrival (call list_method) demo_request
       (final \<lparr>trace = [Handler_called], result = Inr (PyList []), final = anon_world\<rparr>) =
     Pending \<lparr>trace = [Handler_called], result = Inr (PyList []), final = anon_world\<rparr> \<and>
   trace (cache_get_fire demo_env demo_request
            \<lparr>trace = [Handler_called], result = Inr (PyList []), final = anon_world\<rparr> anon_world) =
     [Handler_called, Stored (1, ''/api/public'', ''en'') (''application/json'', PyStr ''[]'')] \<and>
   trace (cache_get_fire demo_env demo_request
            \<lparr>trace = [Handler_called], result = Inr (PyList []), final = anon_world\<rparr>
            (final (cache_get_fire demo_env demo_request
               \<lparr>trace = [Handler_called], result = Inr (PyList []), final = anon_world\<rparr>
               anon_world))) =
     [Handler_called, Stored (1, ''/api/public'', ''en'') (''application/json'', PyStr ''[]'')]"
  by (simp add: cache_get_arrival_def cache_get_fire_def cache_get_callback_def Cache_get_def
        Cache_set_def anon_world_def demo_request_def demo_env_def python_env_def list_method_def
        call_def Let_def)

section \<open>Cache invalidation\<close>

text \<open>
  Claim C9. When the handler is marked as invalidating the cache, the invalidation layer
  drops the entries of the tenant of the request before it calls the wrapped function:
  the wrapped function runs on a world whose cache has no entry of that tenant any more
  and has the entries of every other tenant as they were, the invalidation is the first
  thing recorded after the layer is entered, and what the call returns (the result, be it
  a value or an error, and the world) is what the wrapped function returned, so nothing
  is invalidated after it. The invalidation therefore happens whether or not the handler
  raises.
\<close>

theorem cache_invalidate_before_handler:
  assumes "self_invalidate_cache w"
  shows "\<exists>w'. w' = w\<lparr>cache := cache w'\<rparr> \<and>
           (\<forall>p l. Cache_get (cache w') (tid req) p l = None) \<and>
           (\<forall>t p l. t \<noteq> tid req \<longrightarrow> Cache_get (cache w') t p l = Cache_get (cache w) t p l) \<and>
           trace (decorator_cache_invalidate f req w) =
             Enter CacheInvalidate # Invalidated (tid req) # trace (f req w') \<and>
           result (decorator_cache_invalidate f req w) = result (f req w') \<and>
           final (decorator_cache_invalidate f req w) = final (f req w')"
  using assms
  by (intro exI[of _ "w\<lparr>cache := Cache_invalidate (cache w) (tid req)\<rparr>"])
     (simp add: decorator_cache_invalidate_def Cache_get_def Cache_invalidate_def)

theorem cache_invalidate_before_handler_witness:
  "self_invalidate_cache cached_world \<and>
   Cache_get (cache cached_world) 1 ''/api/public'' ''en'' = Some (''text/plain'', PyBytes ''hello'') \<and>
   trace (decorator_cache_invalidate (call failing_method) demo_request cached_world) =
     [Enter CacheInvalidate, Invalidated 1, Handler_called] \<and>
   result (decorator_cache_invalidate (call failing_method) demo_request cached_world) =
     Inl (OtherError ''boom'') \<and>
   Cache_get (cache (final (decorator_cache_invalidate (call failing_method) demo_request cached_world)))
     1 ''/api/public'' ''en'' = None"
  using cache_invalidate_before_handler [of cached_world demo_request "call failing_method"]
  by (simp add: cached_world_def anon_world_def demo_request_def failing_method_def
                decorator_cache_invalidate_def Cache_get_def Cache_invalidate_def)

section \<open>The endpoint refresh\<close>

text \<open>
  Claim C8, as amended. The refresh layer calls the wrapped function first. When that
  raises, the error is the outcome and the refresh is not called. When it returns a
  value, the refresh is called on the world the wrapped function left; when the refresh
  returns, the value of the wrapped function is returned unchanged, and when the refresh
  raises, its error is the outcome of the call.
\<close>

theorem refresh_after_handler:
  "(result (f req w) = Inl e \<longrightarrow>
      decorator_refresh_connection_endpoints E f req w =
        after [Enter RefreshEndpoints] (f req w)) \<and>
   (result (f req w) = Inr data \<and> refresh E (final (f req w)) = (Inr (), w') \<longrightarrow>
      decorator_refresh_connection_endpoints E f req w =
        \<lparr>trace = Enter RefreshEndpoints # trace (f req w) @ [Refreshed],
         result = Inr data, final = w'\<rparr>) \<and>
   (result (f req w) = Inr data \<and> refresh E (final (f req w)) = (Inl e, w') \<longrightarrow>
      decorator_refresh_connection_endpoints E f req w =
        \<lparr>trace = Enter RefreshEndpoints # trace (f req w) @ [Refreshed],
         result = Inl e, final = w'\<rparr>)"
  by (simp add: decorator_refresh_connection_endpoints_def after_def Let_def)

theorem refresh_after_handler_witness:
  "result (call failing_method demo_request admin_world) = Inl (OtherError ''boom'') \<and>
   decorator_refresh_connection_endpoints demo_env (call failing_method) demo_request admin_world =
     after [Enter RefreshEndpoints] (call failing_method demo_request admin_world) \<and>
   result (call text_method demo_request admin_world) = Inr (PyBytes ''ok'') \<and>
   refresh demo_env (final (call text_method demo_request admin_world)) = (Inr (), admin_world) \<and>
   decorator_refresh_connection_endpoints demo_env (call text_method) demo_request admin_world =
     \<lparr>trace = [Enter RefreshEndpoints, Handler_called, Refreshed],
      result = Inr (PyBytes ''ok''), final = admin_world\<rparr> \<and>
   refresh failing_refresh_env (final (call text_method demo_request admin_world)) =
     (Inl (OtherError ''refresh failed''), admin_world) \<and>
   decorator_refresh_connection_endpoints failing_refresh_env (call text_method)
       demo_request admin_world =
     \<lparr>trace = [Enter RefreshEndpoints, Handler_called, Refreshed],
      result = Inl (OtherError ''refresh failed''), final = admin_world\<rparr>"
  using refresh_after_handler [where f = "call failing_method" and req = demo_request
          and w = admin_world and E = demo_env and e = "OtherError ''boom''"]
        refresh_after_handler [where f = "call text_method" and req = demo_request
          and w = admin_world and E = demo_env and data = "PyBytes ''ok''" and w' = admin_world]
        refresh_after_handler [where f = "call text_method" and req = demo_request
          and w = admin_world and E = failing_refresh_env and data = "PyBytes ''ok''"
          and w' = admin_world and e = "OtherError ''refresh failed''"]
  by (simp add: demo_env_def python_env_def failing_refresh_env_def python_env_def text_method_def failing_method_def)

text \<open>
  The claim C8 as stated fails where the refresh raises: the handler has returned
  \<open>ok\<close>, and the call ends with the error of the refresh.
\<close>

theorem refresh_failure_masks_result:
  "fst (text_method demo_request admin_world) = Inr (PyBytes ''ok'') \<and>
   result (decorator_refresh_connection_endpoints failing_refresh_env (call text_method)
             demo_request admin_world) = Inl (OtherError ''refresh failed'') \<and>
   trace (decorator_refresh_connection_endpoints failing_refresh_env (call text_method)
            demo_request admin_world) = [Enter RefreshEndpoints, Handler_called, Refreshed]"
  by (simp add: decorator_refresh_connection_endpoints_def failing_refresh_env_def python_env_def
                text_method_def Let_def)

section \<open>The composition\<close>

text \<open>
  Every wrapper records that it was entered and then either stops or runs the function it
  wraps once; so the wrappers and the raw method are entered in the order of the nesting,
  up to the first wrapper that stops.
\<close>

lemma visits_layer_cases:
  "visits (apply_layer E roles L g req w) = [Enter L] \<and> \<not> admitted (apply_layer E roles L g req w) \<or>
   (\<exists>w'. visits (apply_layer E roles L g req w) = Enter L # visits (g req w') \<and>
         (admitted (apply_layer E roles L g req w) \<longleftrightarrow> admitted (g req w')))"
proof (cases L)
  case RateLimit
  show ?thesis unfolding RateLimit
    by (auto simp: decorator_rate_limit_def Let_def split: option.splits)
next
  case RequireToken
  show ?thesis unfolding RequireToken
    by (auto simp: decorator_require_token_def truthy_def)
next
  case Authentication
  show ?thesis unfolding Authentication
    by (auto simp: decorator_authentication_def)
next
  case CacheGet
  have "visits (decorator_cache_get E g req w) = [Enter CacheGet] \<and>
          \<not> admitted (decorator_cache_get E g req w) \<or>
        visits (decorator_cache_get E g req w) = Enter CacheGet # visits (g req w) \<and>
          (admitted (decorator_cache_get E g req w) \<longleftrightarrow> admitted (g req w))"
    by (simp add: decorator_cache_get_def Let_def visits_def admitted_def
             split: option.splits sum.splits)
  then show ?thesis unfolding CacheGet by auto
next
  case CacheInvalidate
  show ?thesis unfolding CacheInvalidate
    by (auto simp: decorator_cache_invalidate_def)
next
  case RefreshEndpoints
  have "visits (decorator_refresh_connection_endpoints E g req w) =
          Enter RefreshEndpoints # visits (g req w) \<and>
        (admitted (decorator_refresh_connection_endpoints E g req w) \<longleftrightarrow> admitted (g req w))"
    by (simp add: decorator_refresh_connection_endpoints_def Let_def visits_def admitted_def
             split: option.splits sum.splits prod.splits)
  then show ?thesis unfolding RefreshEndpoints by auto
qed

lemma visits_layers:
  "prefix (visits (foldr (apply_layer E roles) ls (call m) req w))
          (map Enter ls @ [Handler_called]) \<and>
   (admitted (foldr (apply_layer E roles) ls (call m) req w) \<longrightarrow>
      visits (foldr (apply_layer E roles) ls (call m) req w) = map Enter ls @ [Handler_called])"
proof (induction ls arbitrary: w)
  case Nil
  show ?case by simp
next
  case (Cons L ls)
  let ?g = "foldr (apply_layer E roles) ls (call m)"
  from visits_layer_cases [of E roles L ?g req w] show ?case
  proof
    assume "visits (apply_layer E roles L ?g req w) = [Enter L] \<and>
            \<not> admitted (apply_layer E roles L ?g req w)"
    then show ?thesis by simp
  next
    assume "\<exists>w'. visits (apply_layer E roles L ?g req w) = Enter L # visits (?g req w') \<and>
                 (admitted (apply_layer E roles L ?g req w) \<longleftrightarrow> admitted (?g req w'))"
    then obtain w' where
      v: "visits (apply_layer E roles L ?g req w) = Enter L # visits (?g req w')" and
      a: "admitted (apply_layer E roles L ?g req w) \<longleftrightarrow> admitted (?g req w')"
      by blast
    from Cons.IH [of w'] v a show ?thesis by simp
  qed
qed

lemma decorate_method_layers:
  assumes "methods h method = Some m"
  shows "decorate_method E en h method =
           Some (foldr (apply_layer E (roles_of h)) (layer_order en h method) (call m))"
  using assms by (simp add: decorate_method_def layer_order_def Let_def)

text \<open>
  Claim C1, as amended. \<open>decorate_method\<close> nests the enabled layers so that the cache
  layers are the ones applied to the raw method (the cache lookup for \<open>get\<close>; for any other
  method the invalidation, and the endpoint refresh around it), the authorization is
  applied around them, and the token gate and, outermost, the rate limiter around the
  authorization. On every request the wrappers are entered in this order: rate limiter,
  token gate, authorization, then cache lookup (\<open>get\<close>) or endpoint refresh and
  invalidation (other methods), then the raw method; the entries recorded are always a
  prefix of this list, and the whole list when the raw method is reached. The cache
  lookup never stands together with the invalidation or the refresh.
\<close>

theorem decorate_method_layer_order:
  assumes "methods h method = Some m"
  shows "\<exists>F outer inner.
           decorate_method E en h method = Some F \<and>
           F = foldr (apply_layer E (roles_of h)) (layer_order en h method) (call m) \<and>
           layer_order en h method = outer @ [Authentication] @ inner \<and>
           (outer = [] \<or> outer = [RateLimit, RequireToken]) \<and>
           (if method = ''get'' then inner = [] \<or> inner = [CacheGet]
            else inner = [] \<or> inner = [CacheInvalidate] \<or> inner = [RefreshEndpoints] \<or>
                 inner = [RefreshEndpoints, CacheInvalidate]) \<and>
           (\<forall>req w. prefix (visits (F req w))
                      (map Enter (layer_order en h method) @ [Handler_called])) \<and>
           (\<forall>req w. admitted (F req w) \<longrightarrow>
                      visits (F req w) = map Enter (layer_order en h method) @ [Handler_called])"
proof -
  let ?F = "foldr (apply_layer E (roles_of h)) (layer_order en h method) (call m)"
  let ?outer = "if method \<notin> set [''get'', ''options''] \<or> require_token h
                then [RateLimit, RequireToken] else []"
  let ?inner = "if en then
                  (if method = ''get'' then (if cache_resource h then [CacheGet] else [])
                   else (if refresh_connection_endpoints h then [RefreshEndpoints] else []) @
                        (if invalidate_cache h then [CacheInvalidate] else []))
                else []"
  have d: "decorate_method E en h method = Some ?F"
    by (rule decorate_method_layers [OF assms])
  have l: "layer_order en h method = ?outer @ [Authentication] @ ?inner"
    by (simp add: layer_order_def)
  have o: "?outer = [] \<or> ?outer = [RateLimit, RequireToken]"
    by simp
  have i: "if method = ''get'' then ?inner = [] \<or> ?inner = [CacheGet]
           else ?inner = [] \<or> ?inner = [CacheInvalidate] \<or> ?inner = [RefreshEndpoints] \<or>
                ?inner = [RefreshEndpoints, CacheInvalidate]"
    by simp
  have v: "\<forall>req w. prefix (visits (?F req w))
                     (map Enter (layer_order en h method) @ [Handler_called])"
    using visits_layers [of E "roles_of h" "layer_order en h method" m] by blast
  have a: "\<forall>req w. admitted (?F req w) \<longrightarrow>
                     visits (?F req w) = map Enter (layer_order en h method) @ [Handler_called]"
    using visits_layers [of E "roles_of h" "layer_order en h method" m] by blast
  from d l o i v a show ?thesis by blast
qed

theorem decorate_method_layer_order_witness:
  "methods demo_handler ''post'' = Some text_method \<and>
   decorate_method demo_env True demo_handler ''post'' =
     Some (decorator_rate_limit demo_env (decorator_require_token (decorator_authentication
       (decorator_refresh_connection_endpoints demo_env
          (decorator_cache_invalidate (call text_method))) {''admin''}))) \<and>
   layer_order True demo_handler ''post'' =
     [RateLimit, RequireToken] @ [Authentication] @ [RefreshEndpoints, CacheInvalidate] \<and>
   admitted (decorator_rate_limit demo_env (decorator_require_token (decorator_authentication
       (decorator_refresh_connection_endpoints demo_env
          (decorator_cache_invalidate (call text_method))) {''admin''})) demo_request admin_world) \<and>
   trace (decorator_rate_limit demo_env (decorator_require_token (decorator_authentication
       (decorator_refresh_connection_endpoints demo_env
          (decorator_cache_invalidate (call text_method))) {''admin''})) demo_request admin_world) =
     [Enter RateLimit, Enter RequireToken, Enter Authentication, Enter RefreshEndpoints,
      Enter CacheInvalidate, Invalidated 1, Handler_called, Refreshed] \<and>
   visits (decorator_rate_limit demo_env (decorator_require_token (decorator_authentication
       (decorator_refresh_connection_endpoints demo_env
          (decorator_cache_invalidate (call text_method))) {''admin''})) demo_request anon_world) =
     [Enter RateLimit, Enter RequireToken]"
proof -
  have m: "methods demo_handler ''post'' = Some text_method"
    by (simp add: demo_handler_def)
  have l: "layer_order True demo_handler ''post'' =
             [RateLimit, RequireToken, Authentication, RefreshEndpoints, CacheInvalidate]"
    by (simp add: layer_order_def demo_handler_def)
  have r: "roles_of demo_handler = {''admin''}"
    by (simp add: roles_of_def demo_handler_def)
  let ?F = "decorator_rate_limit demo_env (decorator_require_token (decorator_authentication
       (decorator_refresh_connection_endpoints demo_env
          (decorator_cache_invalidate (call text_method))) {''admin''}))"
  from decorate_method_layer_order [OF m, of demo_env True]
  have d: "decorate_method demo_env True demo_handler ''post'' = Some ?F"
    and a: "admitted (?F demo_request admin_world) \<longrightarrow>
            visits (?F demo_request admin_world) =
              map Enter (layer_order True demo_handler ''post'') @ [Handler_called]"
    and p: "prefix (visits (?F demo_request anon_world))
              (map Enter (layer_order True demo_handler ''post'') @ [Handler_called])"
    unfolding l r by auto
  have t: "trace (?F demo_request admin_world) =
     [Enter RateLimit, Enter RequireToken, Enter Authentication, Enter RefreshEndpoints,
      Enter CacheInvalidate, Invalidated 1, Handler_called, Refreshed]"
    by (simp add: decorator_rate_limit_def decorator_require_token_def truthy_def
          decorator_authentication_def decorator_refresh_connection_endpoints_def
          decorator_cache_invalidate_def admin_world_def anon_world_def admin_session_def
          demo_request_def demo_env_def python_env_def text_method_def Let_def)
  have v: "visits (?F demo_request anon_world) = [Enter RateLimit, Enter RequireToken]"
    by (simp add: decorator_rate_limit_def decorator_require_token_def truthy_def anon_world_def
          demo_request_def endswith_def)
  from m d l t v show ?thesis by (simp add: admitted_def)
qed

text \<open>
  The claim C1 as stated has the authorization applied directly around the raw method
  and the cache layers outside it. For a cacheable \<open>get\<close> the code has the cache lookup
  between the authorization and the raw method; with an entry in the cache and no
  session, the code refuses the request where the nesting of the claim would return the
  cached body.
\<close>

theorem authentication_not_around_raw_handler:
  "decorate_method demo_env True demo_handler ''get'' =
     Some (decorator_authentication (decorator_cache_get demo_env (call list_method)) {''admin''}) \<and>
   trace (decorator_authentication (decorator_cache_get demo_env (call list_method)) {''admin''}
            demo_request admin_world) =
     [Enter Authentication, Enter CacheGet, Handler_called,
      Stored (1, ''/api/public'', ''en'') (''application/json'', PyStr ''[]'')] \<and>
   decorator_authentication (decorator_cache_get demo_env (call list_method)) {''admin''}
       demo_request cached_world =
     \<lparr>trace = [Enter Authentication], result = Inl NotAuthenticated, final = cached_world\<rparr> \<and>
   decorator_cache_get demo_env (decorator_authentication (call list_method) {''admin''})
       demo_request cached_world =
     \<lparr>trace = [Enter CacheGet], result = Inr (PyBytes ''hello''),
      final = cached_world\<lparr>content_type := Some ''text/plain''\<rparr>\<rparr>"
  by (simp add: decorate_method_def roles_of_def demo_handler_def decorator_authentication_def
        decorator_cache_get_def Cache_get_def Cache_set_def admin_world_def cached_world_def
        anon_world_def admin_session_def demo_request_def demo_env_def python_env_def list_method_def Let_def
        after_def raise_def call_def)

text \<open>
  With the cache setting off, only the authorization and, where they apply, the token
  gate and the rate limiter are left; they do not touch the cache or the response
  headers.
\<close>

lemma plain_pipeline_trace:
  "set (trace (decorator_authentication (call m) roles req w))
     \<subseteq> {Enter RateLimit, Enter RequireToken, Enter Authentication, Handler_called}"
  "set (trace (decorator_rate_limit E (decorator_require_token
          (decorator_authentication (call m) roles)) req w))
     \<subseteq> {Enter RateLimit, Enter RequireToken, Enter Authentication, Handler_called}"
  by (auto simp: decorator_authentication_def decorator_require_token_def truthy_def
                 decorator_rate_limit_def Let_def split: option.splits if_splits)

lemma plain_pipeline_auth:
  "\<exists>w'. cache w' = cache w \<and> content_type w' = content_type w \<and>
     (if admitted (decorator_authentication (call m) roles req w)
      then result (decorator_authentication (call m) roles req w) = fst (m req w') \<and>
           final (decorator_authentication (call m) roles req w) = snd (m req w')
      else final (decorator_authentication (call m) roles req w) = w')"
  by (rule exI [of _ w]) (simp add: decorator_authentication_def)

lemma rate_limit_cases:
  "\<exists>w1. cache w1 = cache w \<and> content_type w1 = content_type w \<and>
     (decorator_rate_limit E f req w = after [Enter RateLimit] (raise NotAuthenticated w1) \<or>
      decorator_rate_limit E f req w = after [Enter RateLimit] (f req w1))"
proof (cases "session w")
  case None
  then have "decorator_rate_limit E f req w = after [Enter RateLimit] (f req w)"
    by (simp add: decorator_rate_limit_def)
  then show ?thesis by blast
next
  case (Some s)
  show ?thesis
  proof (cases "user_role s = ''whistleblower''")
    case False
    with Some have "decorator_rate_limit E f req w = after [Enter RateLimit] (f req w)"
      by (simp add: decorator_rate_limit_def)
    then show ?thesis by blast
  next
    case True
    define s1 where "s1 = (if clock w > ratelimit_time s + timedelta_seconds 30
                           then s\<lparr>ratelimit_time := clock w, ratelimit_count := 0\<rparr> else s)"
    define w1 where "w1 = w\<lparr>session := Some (s1\<lparr>ratelimit_count := ratelimit_count s1 + 1\<rparr>)\<rparr>"
    have c: "cache w1 = cache w" "content_type w1 = content_type w"
      by (simp_all add: w1_def)
    from Some True
    have "decorator_rate_limit E f req w = after [Enter RateLimit] (raise NotAuthenticated w1) \<or>
          decorator_rate_limit E f req w = after [Enter RateLimit] (f req w1)"
      unfolding decorator_rate_limit_def w1_def s1_def by (simp add: Let_def)
    with c show ?thesis by blast
  qed
qed

lemma token_auth_cases:
  "\<not> admitted (decorator_require_token (decorator_authentication (call m) roles) req w) \<and>
     final (decorator_require_token (decorator_authentication (call m) roles) req w) = w \<or>
   admitted (decorator_require_token (decorator_authentication (call m) roles) req w) \<and>
     result (decorator_require_token (decorator_authentication (call m) roles) req w) = fst (m req w) \<and>
     final (decorator_require_token (decorator_authentication (call m) roles) req w) = snd (m req w)"
  by (simp add: decorator_require_token_def truthy_def decorator_authentication_def)

lemma plain_pipeline_full:
  "\<exists>w'. cache w' = cache w \<and> content_type w' = content_type w \<and>
     (if admitted (decorator_rate_limit E (decorator_require_token
            (decorator_authentication (call m) roles)) req w)
      then result (decorator_rate_limit E (decorator_require_token
            (decorator_authentication (call m) roles)) req w) = fst (m req w') \<and>
           final (decorator_rate_limit E (decorator_require_token
            (decorator_authentication (call m) roles)) req w) = snd (m req w')
      else final (decorator_rate_limit E (decorator_require_token
            (decorator_authentication (call m) roles)) req w) = w')"
proof -
  let ?g = "decorator_require_token (decorator_authentication (call m) roles)"
  from rate_limit_cases [where w = w and f = ?g and req = req and E = E] obtain w1 where
    c: "cache w1 = cache w" "content_type w1 = content_type w" and
    d: "decorator_rate_limit E ?g req w = after [Enter RateLimit] (raise NotAuthenticated w1) \<or>
        decorator_rate_limit E ?g req w = after [Enter RateLimit] (?g req w1)"
    by blast
  from d show ?thesis
  proof
    assume "decorator_rate_limit E ?g req w = after [Enter RateLimit] (raise NotAuthenticated w1)"
    with c show ?thesis by (intro exI [of _ w1]) simp
  next
    assume e: "decorator_rate_limit E ?g req w = after [Enter RateLimit] (?g req w1)"
    from token_auth_cases [where m = m and roles = roles and req = req and w = w1] c show ?thesis
      unfolding e by (intro exI [of _ w1]) auto
  qed
qed

text \<open>
  Claim C10. With \<open>enable_api_cache\<close> false, \<open>decorate_method\<close> returns the raw method
  wrapped in the authorization layer alone, or, for a method other than \<open>get\<close> and
  \<open>options\<close> or a handler with \<open>require_token\<close>, in the authorization layer, the token gate
  and the rate limiter, whatever the flags \<open>cache_resource\<close>, \<open>invalidate_cache\<close> and
  \<open>refresh_connection_endpoints\<close> of the handler are. A request then records no store, no
  invalidation and no refresh: the raw method runs on a world with the cache and the
  content type as they were, and its result and world are those of the call; a rejected
  request leaves them as they were. The cache lookup, the invalidation and the refresh
  are among the layers of a method only when the setting is true.
\<close>

theorem api_cache_disabled:
  assumes "methods h method = Some m"
  shows "\<exists>F. decorate_method E False h method = Some F \<and>
           F = (if method \<notin> set [''get'', ''options''] \<or> require_token h
                then decorator_rate_limit E (decorator_require_token
                       (decorator_authentication (call m) (roles_of h)))
                else decorator_authentication (call m) (roles_of h)) \<and>
           (\<forall>req w. set (trace (F req w)) \<subseteq>
                      {Enter RateLimit, Enter RequireToken, Enter Authentication, Handler_called}) \<and>
           (\<forall>req w. \<exists>w'. cache w' = cache w \<and> content_type w' = content_type w \<and>
                      (if admitted (F req w)
                       then result (F req w) = fst (m req w') \<and> final (F req w) = snd (m req w')
                       else final (F req w) = w')) \<and>
           (\<forall>en. decorate_method E en h method =
                    Some (foldr (apply_layer E (roles_of h)) (layer_order en h method) (call m)) \<and>
                 (set (layer_order en h method) \<inter> {CacheGet, CacheInvalidate, RefreshEndpoints} \<noteq> {}
                    \<longrightarrow> en))"
proof -
  let ?A = "decorator_authentication (call m) (roles_of h)"
  let ?B = "decorator_rate_limit E (decorator_require_token ?A)"
  let ?F = "if method \<notin> set [''get'', ''options''] \<or> require_token h then ?B else ?A"
  have d: "decorate_method E False h method = Some ?F"
    using assms by (simp add: decorate_method_def Let_def)
  have t: "\<forall>req w. set (trace (?F req w)) \<subseteq>
             {Enter RateLimit, Enter RequireToken, Enter Authentication, Handler_called}"
    using plain_pipeline_trace(1) [where m = m and roles = "roles_of h"]
          plain_pipeline_trace(2) [where m = m and roles = "roles_of h" and E = E] by (simp del: set_simps)
  have s: "\<forall>req w. \<exists>w'. cache w' = cache w \<and> content_type w' = content_type w \<and>
             (if admitted (?F req w)
              then result (?F req w) = fst (m req w') \<and> final (?F req w) = snd (m req w')
              else final (?F req w) = w')"
    using plain_pipeline_auth [where m = m and roles = "roles_of h"]
          plain_pipeline_full [where m = m and roles = "roles_of h" and E = E]
    by (cases "method \<notin> set [''get'', ''options''] \<or> require_token h") simp_all
  have l: "\<forall>en. decorate_method E en h method =
                  Some (foldr (apply_layer E (roles_of h)) (layer_order en h method) (call m)) \<and>
               (set (layer_order en h method) \<inter> {CacheGet, CacheInvalidate, RefreshEndpoints} \<noteq> {}
                  \<longrightarrow> en)"
    using decorate_method_layers [OF assms] by (auto simp: layer_order_def)
  from d t s l show ?thesis by blast
qed

theorem api_cache_disabled_witness:
  "methods demo_handler ''get'' = Some list_method \<and>
   decorate_method demo_env False demo_handler ''get'' =
     Some (decorator_authentication (call list_method) {''admin''}) \<and>
   trace (decorator_authentication (call list_method) {''admin''} demo_request admin_world) =
     [Enter Authentication, Handler_called] \<and>
   Cache_get (cache (final (decorator_authentication (call list_method) {''admin''}
       demo_request admin_world))) 1 ''/api/public'' ''en'' = None \<and>
   methods demo_handler ''post'' = Some text_method \<and>
   decorate_method demo_env False demo_handler ''post'' =
     Some (decorator_rate_limit demo_env (decorator_require_token
            (decorator_authentication (call text_method) {''admin''}))) \<and>
   trace (decorator_rate_limit demo_env (decorator_require_token
            (decorator_authentication (call text_method) {''admin''})) demo_request admin_world) =
     [Enter RateLimit, Enter RequireToken, Enter Authentication, Handler_called] \<and>
   CacheGet \<in> set (layer_order True demo_handler ''get'')"
proof -
  have g: "methods demo_handler ''get'' = Some list_method"
    and p: "methods demo_handler ''post'' = Some text_method"
    by (simp_all add: demo_handler_def)
  have r: "roles_of demo_handler = {''admin''}"
    by (simp add: roles_of_def demo_handler_def)
  from api_cache_disabled [OF g, of demo_env]
  have dg: "decorate_method demo_env False demo_handler ''get'' =
              Some (decorator_authentication (call list_method) {''admin''})"
    unfolding r by (auto simp: demo_handler_def)
  from api_cache_disabled [OF p, of demo_env]
  have dp: "decorate_method demo_env False demo_handler ''post'' =
              Some (decorator_rate_limit demo_env (decorator_require_token
                (decorator_authentication (call text_method) {''admin''})))"
    unfolding r by (auto simp: demo_handler_def)
  have t: "trace (decorator_authentication (call list_method) {''admin''} demo_request admin_world) =
             [Enter Authentication, Handler_called]"
      "Cache_get (cache (final (decorator_authentication (call list_method) {''admin''}
         demo_request admin_world))) 1 ''/api/public'' ''en'' = None"
      "trace (decorator_rate_limit demo_env (decorator_require_token
            (decorator_authentication (call text_method) {''admin''})) demo_request admin_world) =
         [Enter RateLimit, Enter RequireToken, Enter Authentication, Handler_called]"
    by (simp_all add: decorator_rate_limit_def decorator_require_token_def truthy_def
          decorator_authentication_def admin_world_def anon_world_def admin_session_def
          demo_request_def list_method_def text_method_def Cache_get_def)
  have c: "CacheGet \<in> set (layer_order True demo_handler ''get'')"
    by (simp add: layer_order_def demo_handler_def)
  from g p dg dp t c show ?thesis by simp
qed

end
